theory Spec2Isabelle
  imports Complex_Main
begin

section \<open>JavaScript numbers and the conversion \<open>Number(token)\<close>\<close>

text \<open>
  The evaluator of \<^verbatim>\<open>src/Engine/FormulaEvaluator.ts\<close> computes with JavaScript numbers,
  the binary64 values of IEEE 754. A number is \<open>Fin q\<close> for a rational \<open>q\<close> (positive
  zero is \<open>Fin 0\<close>), negative zero, one of the two infinities, or NaN. An operation
  computes the exact rational result and rounds it to the nearest binary64 value, ties
  to the even significand; a result of magnitude at least \<open>2^1024 - 2^970\<close> becomes an
  infinity, and a result that rounds to nothing becomes a zero of the result's sign.
\<close>

datatype jsnum = Fin rat | NegZero | PInf | NInf | NaN

type_synonym token = string

text \<open>The integer part of the binary logarithm of a positive integer.\<close>

function ilog2 :: "int \<Rightarrow> int" where
  "ilog2 n = (if n < 2 then 0 else 1 + ilog2 (n div 2))"
  by pat_completeness auto
termination
  by (relation "measure nat") auto

declare ilog2.simps [simp del]

definition pow2 :: "int \<Rightarrow> rat" where
  "pow2 k = (if 0 \<le> k then 2 ^ nat k else 1 / 2 ^ nat (- k))"

text \<open>The exponent \<open>e\<close> with \<open>2^e \<le> q < 2^(e + 1)\<close>, for positive \<open>q\<close>.\<close>

definition floorLog2 :: "rat \<Rightarrow> int" where
  "floorLog2 q =
     (if 1 \<le> q then ilog2 \<lfloor>q\<rfloor>
      else - (1 + ilog2 (\<lceil>1 / q\<rceil> - 1)))"

definition roundHalfEven :: "rat \<Rightarrow> int" where
  "roundHalfEven x =
     (let n = \<lfloor>x\<rfloor>; f = x - of_int n
      in if f < 1 / 2 then n else if 1 / 2 < f then n + 1 else if even n then n else n + 1)"

text \<open>
  The binary64 value of a sign and an exact magnitude \<open>a \<ge> 0\<close>. The significand \<open>m\<close>
  counts units of \<open>2^(e - 52)\<close>, where the exponent \<open>e\<close> is that of \<open>a\<close> and at least
  \<open>-1022\<close> (below it the values are subnormal).
\<close>

definition roundToDouble :: "bool \<Rightarrow> rat \<Rightarrow> jsnum" where
  "roundToDouble negative a =
     (let e = (if a = 0 then - 1022 else max (floorLog2 a) (- 1022));
          m = roundHalfEven (a * pow2 (52 - e))
      in if 1023 < e \<or> (e = 1023 \<and> m = 2 ^ 53) then (if negative then NInf else PInf)
         else if m = 0 then (if negative then NegZero else Fin 0)
         else Fin ((if negative then - 1 else 1) * of_int m * pow2 (e - 52)))"

fun isNaN :: "jsnum \<Rightarrow> bool" where
  "isNaN NaN = True"
| "isNaN _ = False"

fun isZero :: "jsnum \<Rightarrow> bool" where
  "isZero (Fin a) = (a = 0)"
| "isZero NegZero = True"
| "isZero _ = False"

fun isInfinite :: "jsnum \<Rightarrow> bool" where
  "isInfinite PInf = True"
| "isInfinite NInf = True"
| "isInfinite _ = False"

fun js_negative :: "jsnum \<Rightarrow> bool" where
  "js_negative (Fin a) = (a < 0)"
| "js_negative NegZero = True"
| "js_negative NInf = True"
| "js_negative _ = False"

text \<open>The rational a finite number stands for.\<close>

fun mathValue :: "jsnum \<Rightarrow> rat" where
  "mathValue (Fin a) = a"
| "mathValue _ = 0"

fun js_neg :: "jsnum \<Rightarrow> jsnum" where
  "js_neg (Fin a) = (if a = 0 then NegZero else Fin (- a))"
| "js_neg NegZero = Fin 0"
| "js_neg PInf = NInf"
| "js_neg NInf = PInf"
| "js_neg NaN = NaN"

definition js_add :: "jsnum \<Rightarrow> jsnum \<Rightarrow> jsnum" where
  "js_add x y =
     (if isNaN x \<or> isNaN y then NaN
      else if isInfinite x \<and> isInfinite y then (if x = y then x else NaN)
      else if isInfinite x then x
      else if isInfinite y then y
      else if isZero x \<and> isZero y then (if x = NegZero \<and> y = NegZero then NegZero else Fin 0)
      else
        let s = mathValue x + mathValue y
        in if s = 0 then Fin 0 else roundToDouble (s < 0) \<bar>s\<bar>)"

definition js_sub :: "jsnum \<Rightarrow> jsnum \<Rightarrow> jsnum" where
  "js_sub x y = js_add x (js_neg y)"

definition js_mul :: "jsnum \<Rightarrow> jsnum \<Rightarrow> jsnum" where
  "js_mul x y =
     (if isNaN x \<or> isNaN y then NaN
      else if (isInfinite x \<and> isZero y) \<or> (isZero x \<and> isInfinite y) then NaN
      else
        let negative = (js_negative x \<noteq> js_negative y)
        in if isInfinite x \<or> isInfinite y then (if negative then NInf else PInf)
           else roundToDouble negative \<bar>mathValue x * mathValue y\<bar>)"

definition js_div :: "jsnum \<Rightarrow> jsnum \<Rightarrow> jsnum" where
  "js_div x y =
     (if isNaN x \<or> isNaN y then NaN
      else if (isInfinite x \<and> isInfinite y) \<or> (isZero x \<and> isZero y) then NaN
      else
        let negative = (js_negative x \<noteq> js_negative y)
        in if isInfinite x \<or> isZero y then (if negative then NInf else PInf)
           else if isInfinite y then (if negative then NegZero else Fin 0)
           else roundToDouble negative \<bar>mathValue x / mathValue y\<bar>)"

text \<open>
  An array element that does not exist reads as \<^verbatim>\<open>undefined\<close> (here \<open>None\<close>);
  an arithmetic operator converts it to NaN, and \<^verbatim>\<open>undefined === 0\<close> is false. Both
  zeros are \<^verbatim>\<open>=== 0\<close>.
\<close>

fun ToNumber :: "jsnum option \<Rightarrow> jsnum" where
  "ToNumber None = NaN"
| "ToNumber (Some x) = x"

fun strictEqualsZero :: "jsnum option \<Rightarrow> bool" where
  "strictEqualsZero None = False"
| "strictEqualsZero (Some x) = isZero x"

text \<open>\<^verbatim>\<open>x === y\<close> on two numbers: NaN equals nothing, the two zeros are equal.\<close>

definition strictEquals :: "jsnum \<Rightarrow> jsnum \<Rightarrow> bool" where
  "strictEquals x y = (\<not> isNaN x \<and> \<not> isNaN y \<and> (x = y \<or> (isZero x \<and> isZero y)))"

subsection \<open>String to number\<close>

text \<open>
  \<^verbatim>\<open>Number(s)\<close> on a string follows the StringNumericLiteral grammar of ECMAScript:
  white space is trimmed, the empty string is 0, then come the prefixed binary, octal
  and hexadecimal integers and the signed decimal literal (\<^verbatim>\<open>Infinity\<close>, digits with an
  optional fraction and exponent); anything else is NaN. The mathematical value of the
  literal is rounded to binary64 as above (the rounding every current engine performs,
  also for literals of more than twenty significant digits). Strings are lists of
  8-bit characters, so of the white-space characters only those below 256 occur.
\<close>

definition isStrWhiteSpaceChar :: "char \<Rightarrow> bool" where
  "isStrWhiteSpaceChar c = ((of_char c :: nat) \<in> set [9, 10, 11, 12, 13, 32, 160])"

definition trim :: "string \<Rightarrow> string" where
  "trim s = rev (dropWhile isStrWhiteSpaceChar (rev (dropWhile isStrWhiteSpaceChar s)))"

definition isDecimalDigit :: "char \<Rightarrow> bool" where
  "isDecimalDigit c = (c \<in> set ''0123456789'')"

definition isBinaryDigit :: "char \<Rightarrow> bool" where
  "isBinaryDigit c = (c \<in> set ''01'')"

definition isOctalDigit :: "char \<Rightarrow> bool" where
  "isOctalDigit c = (c \<in> set ''01234567'')"

definition isHexDigit :: "char \<Rightarrow> bool" where
  "isHexDigit c = (c \<in> set ''0123456789abcdefABCDEF'')"

definition digitValue :: "char \<Rightarrow> nat" where
  "digitValue c =
     (if isDecimalDigit c then of_char c - 48
      else if c \<in> set ''abcdef'' then of_char c - 87
      else of_char c - 55)"

definition digitsValue :: "nat \<Rightarrow> string \<Rightarrow> nat" where
  "digitsValue base ds = foldl (\<lambda>acc c. acc * base + digitValue c) 0 ds"

definition decimalDigits :: "string \<Rightarrow> nat option" where
  "decimalDigits ds =
     (if ds \<noteq> [] \<and> list_all isDecimalDigit ds then Some (digitsValue 10 ds) else None)"

definition exponentPart :: "string \<Rightarrow> int option" where
  "exponentPart r =
     (case r of
        [] \<Rightarrow> Some 0
      | c # r' \<Rightarrow>
          if c = CHR ''e'' \<or> c = CHR ''E'' then
            (case r' of
               [] \<Rightarrow> None
             | s # ds \<Rightarrow>
                 if s = CHR ''+'' then map_option int (decimalDigits ds)
                 else if s = CHR ''-'' then map_option (\<lambda>n. - int n) (decimalDigits ds)
                 else map_option int (decimalDigits r'))
          else None)"

definition scale10 :: "nat \<Rightarrow> int \<Rightarrow> rat" where
  "scale10 m k = (if 0 \<le> k then of_nat m * 10 ^ nat k else of_nat m / 10 ^ nat (- k))"

definition strUnsignedDecimalLiteral :: "string \<Rightarrow> jsnum" where
  "strUnsignedDecimalLiteral s =
     (if s = ''Infinity'' then PInf
      else
        let ip = takeWhile isDecimalDigit s;
            r1 = dropWhile isDecimalDigit s;
            (fp, r2) =
              (case r1 of
                 [] \<Rightarrow> ([], r1)
               | c # r \<Rightarrow>
                   if c = CHR ''.''
                   then (takeWhile isDecimalDigit r, dropWhile isDecimalDigit r)
                   else ([], r1))
        in if ip = [] \<and> fp = [] then NaN
           else (case exponentPart r2 of
                   None \<Rightarrow> NaN
                 | Some e \<Rightarrow>
                     roundToDouble False (scale10 (digitsValue 10 (ip @ fp)) (e - int (length fp)))))"

definition nonDecimalIntegerLiteral :: "string \<Rightarrow> jsnum option" where
  "nonDecimalIntegerLiteral s =
     (case s of
        z # x # ds \<Rightarrow>
          if z = CHR ''0'' \<and> ds \<noteq> [] then
            (if (x = CHR ''x'' \<or> x = CHR ''X'') \<and> list_all isHexDigit ds
               then Some (roundToDouble False (of_nat (digitsValue 16 ds)))
             else if (x = CHR ''o'' \<or> x = CHR ''O'') \<and> list_all isOctalDigit ds
               then Some (roundToDouble False (of_nat (digitsValue 8 ds)))
             else if (x = CHR ''b'' \<or> x = CHR ''B'') \<and> list_all isBinaryDigit ds
               then Some (roundToDouble False (of_nat (digitsValue 2 ds)))
             else None)
          else None
      | _ \<Rightarrow> None)"

definition Number :: "string \<Rightarrow> jsnum" where
  "Number str =
     (let t = trim str in
      case t of
        [] \<Rightarrow> Fin 0
      | c # r \<Rightarrow>
          (case nonDecimalIntegerLiteral t of
             Some n \<Rightarrow> n
           | None \<Rightarrow>
               if c = CHR ''+'' then strUnsignedDecimalLiteral r
               else if c = CHR ''-'' then js_neg (strUnsignedDecimalLiteral r)
               else strUnsignedDecimalLiteral t))"

section \<open>What the evaluator imports\<close>

text \<open>
  \<^verbatim>\<open>FormulaEvaluator.ts\<close> imports \<^verbatim>\<open>ErrorMessages\<close> from \<^verbatim>\<open>GlobalDefinitions\<close>,
  \<^verbatim>\<open>Cell\<close> and \<^verbatim>\<open>SheetMemory\<close>; none of the three files is under \<^verbatim>\<open>src/\<close>. The five
  message constants the evaluator reads and the static \<^verbatim>\<open>Cell.isValidCellLabel\<close> are
  parameters of the model, collected in one record. A cell is what its three getters
  return, and the sheet memory is its lookup \<^verbatim>\<open>getCellByLabel\<close>.
\<close>

record Globals =
  emptyFormula :: string
  invalidFormula :: string
  divideByZero :: string
  invalidOperator :: string
  invalidCell :: string
  isValidCellLabel :: "token \<Rightarrow> bool"

record Cell =
  getFormula :: "token list"
  getError :: string
  getValue :: jsnum

type_synonym SheetMemory = "token \<Rightarrow> Cell"

section \<open>The class FormulaEvaluator\<close>

record FormulaEvaluator =
  sheetMemory :: SheetMemory
  errorMessage :: string
  result :: jsnum

text \<open>
  The two local arrays \<^verbatim>\<open>values\<close> and \<^verbatim>\<open>operators\<close> are used as stacks; the head
  of a list is the top of the stack (the last element of the array).
  \<^verbatim>\<open>pop\<close> on an empty array returns \<^verbatim>\<open>undefined\<close> and leaves the array empty.
\<close>

fun pop :: "'a list \<Rightarrow> 'a option \<times> 'a list" where
  "pop [] = (None, [])"
| "pop (x # xs) = (Some x, xs)"

definition push :: "'a \<Rightarrow> 'a list \<Rightarrow> 'a list" where
  "push x xs = x # xs"

definition isNumber :: "token \<Rightarrow> bool" where
  "isNumber token = (\<not> isNaN (Number token))"

definition isCellReference :: "Globals \<Rightarrow> token \<Rightarrow> bool" where
  "isCellReference g token = isValidCellLabel g token"

definition isOperator :: "token \<Rightarrow> bool" where
  "isOperator token = (token \<in> set [''+'', ''-'', ''*'', ''/''])"

definition getOperatorPrecedence :: "string \<Rightarrow> nat" where
  "getOperatorPrecedence operator =
     (if operator = ''+'' \<or> operator = ''-'' then 1
      else if operator = ''*'' \<or> operator = ''/'' then 2
      else 0)"

text \<open>
  A \<^verbatim>\<open>throw\<close> is a value: \<open>Inl m\<close> stands for "assign \<open>m\<close> to \<^verbatim>\<open>_errorMessage\<close>, then
  throw". Every \<^verbatim>\<open>throw\<close> statement of the class comes right after such an assignment,
  and nothing below \<^verbatim>\<open>evaluate\<close> writes the field otherwise.
\<close>

definition getCellValue :: "Globals \<Rightarrow> SheetMemory \<Rightarrow> token \<Rightarrow> jsnum \<times> string" where
  "getCellValue g mem token =
     (let cell = mem token;
          formula = getFormula cell;
          error = getError cell
      in if error \<noteq> '''' \<and> error \<noteq> emptyFormula g then (Fin 0, error)
         else if length formula = 0 then (Fin 0, invalidCell g)
         else (getValue cell, ''''))"

definition applyOperator :: "Globals \<Rightarrow> string \<Rightarrow> jsnum list \<Rightarrow> string + jsnum list" where
  "applyOperator g operator values0 =
     (let (operand2, values1) = pop values0;
          (operand1, values2) = pop values1
      in if operator = ''+''
           then Inr (push (js_add (ToNumber operand1) (ToNumber operand2)) values2)
         else if operator = ''-''
           then Inr (push (js_sub (ToNumber operand1) (ToNumber operand2)) values2)
         else if operator = ''*''
           then Inr (push (js_mul (ToNumber operand1) (ToNumber operand2)) values2)
         else if operator = ''/''
           then (if strictEqualsZero operand2 then Inl (divideByZero g)
                 else Inr (push (js_div (ToNumber operand1) (ToNumber operand2)) values2))
         else Inl (invalidOperator g))"

text \<open>The loop of the close-parenthesis branch (lines 54 to 56).\<close>

fun reduceToParen ::
  "Globals \<Rightarrow> string list \<Rightarrow> jsnum list \<Rightarrow> string + (jsnum list \<times> string list)" where
  "reduceToParen g [] values = Inr (values, [])"
| "reduceToParen g (opr # operators) values =
     (if opr \<noteq> ''(''
      then (case applyOperator g opr values of
              Inl m \<Rightarrow> Inl m
            | Inr values' \<Rightarrow> reduceToParen g operators values')
      else Inr (values, opr # operators))"

text \<open>The loop of the operator branch (lines 59 to 64).\<close>

fun reduceByPrecedence ::
  "Globals \<Rightarrow> token \<Rightarrow> string list \<Rightarrow> jsnum list \<Rightarrow> string + (jsnum list \<times> string list)" where
  "reduceByPrecedence g token [] values = Inr (values, [])"
| "reduceByPrecedence g token (opr # operators) values =
     (if getOperatorPrecedence token \<le> getOperatorPrecedence opr
      then (case applyOperator g opr values of
              Inl m \<Rightarrow> Inl m
            | Inr values' \<Rightarrow> reduceByPrecedence g token operators values')
      else Inr (values, opr # operators))"

text \<open>The loop after the scan (lines 69 to 71).\<close>

fun reduceAll :: "Globals \<Rightarrow> string list \<Rightarrow> jsnum list \<Rightarrow> string + jsnum list" where
  "reduceAll g [] values = Inr values"
| "reduceAll g (opr # operators) values =
     (case applyOperator g opr values of
        Inl m \<Rightarrow> Inl m
      | Inr values' \<Rightarrow> reduceAll g operators values')"

text \<open>The \<^verbatim>\<open>for\<close> loop over the tokens (lines 39 to 67), from a given pair of stacks.\<close>

fun scan ::
  "Globals \<Rightarrow> SheetMemory \<Rightarrow> token list \<Rightarrow> jsnum list \<Rightarrow> string list
     \<Rightarrow> string + (jsnum list \<times> string list)" where
  "scan g mem [] values operators = Inr (values, operators)"
| "scan g mem (token # rest) values operators =
     (if isNumber token then scan g mem rest (push (Number token) values) operators
      else if isCellReference g token then
        (let (value, error) = getCellValue g mem token
         in if error \<noteq> '''' then Inl error
            else scan g mem rest (push value values) operators)
      else if token = ''('' then scan g mem rest values (push token operators)
      else if token = '')'' then
        (case reduceToParen g operators values of
           Inl m \<Rightarrow> Inl m
         | Inr (values', operators') \<Rightarrow> scan g mem rest values' (snd (pop operators')))
      else if isOperator token then
        (case reduceByPrecedence g token operators values of
           Inl m \<Rightarrow> Inl m
         | Inr (values', operators') \<Rightarrow> scan g mem rest values' (push token operators'))
      else scan g mem rest values operators)"

text \<open>\<^verbatim>\<open>x || 0\<close> on a number: 0 when \<^verbatim>\<open>x\<close> is \<^verbatim>\<open>undefined\<close>, NaN or a zero.\<close>

fun orZero :: "jsnum option \<Rightarrow> jsnum" where
  "orZero None = Fin 0"
| "orZero (Some x) = (if isNaN x \<or> isZero x then Fin 0 else x)"

definition evaluateExpression :: "Globals \<Rightarrow> SheetMemory \<Rightarrow> token list \<Rightarrow> string + jsnum" where
  "evaluateExpression g mem tokens =
     (case scan g mem tokens [] [] of
        Inl m \<Rightarrow> Inl m
      | Inr (values, operators) \<Rightarrow>
          (case reduceAll g operators values of
             Inl m \<Rightarrow> Inl m
           | Inr values' \<Rightarrow>
               if length values' \<noteq> 1 then Inl (invalidFormula g)
               else Inr (orZero (fst (pop values')))))"

text \<open>
  \<^verbatim>\<open>evaluate\<close> (lines 17 to 33). In the \<^verbatim>\<open>catch\<close> branch the field already holds the
  message \<open>m\<close> assigned before the throw; the handler then assigns
  \<^verbatim>\<open>ErrorMessages.invalidFormula\<close>.
\<close>

definition evaluate :: "Globals \<Rightarrow> FormulaEvaluator \<Rightarrow> token list \<Rightarrow> FormulaEvaluator" where
  "evaluate g this formula =
     (let this1 = this\<lparr>errorMessage := '''', result := Fin 0\<rparr>
      in if length formula = 0 then this1\<lparr>errorMessage := emptyFormula g\<rparr>
         else (case evaluateExpression g (sheetMemory this1) formula of
                 Inr r \<Rightarrow> this1\<lparr>result := r\<rparr>
               | Inl m \<Rightarrow> (this1\<lparr>errorMessage := m\<rparr>)\<lparr>errorMessage := invalidFormula g\<rparr>))"

section \<open>The run of evaluate, statement by statement\<close>

text \<open>
  The functions above give what a call computes. To state that a call comes to an end
  and that no exception leaves it, the same methods are given once more as they run:
  a statement completes normally or throws, a loop is a partial function (its value is
  \<open>None\<close> when it runs forever), and the lookup in the sheet either returns a cell or
  throws (\<open>None\<close>: \<^verbatim>\<open>getCellByLabel\<close> throws, or returns no object and the call of a
  getter on it throws). A lookup is taken to come to an end, as an in-memory lookup
  does. The two arrays and the field \<^verbatim>\<open>_errorMessage\<close> are the state of the run.
\<close>

datatype 'a completion = Returns 'a | Throws

type_synonym Lookup = "token \<Rightarrow> Cell option"

record Frame =
  frameValues :: "jsnum list"
  frameOperators :: "string list"
  frameMessage :: string

definition run_getCellValue :: "Globals \<Rightarrow> Lookup \<Rightarrow> token \<Rightarrow> (jsnum \<times> string) completion" where
  "run_getCellValue g lookup token =
     (case lookup token of
        None \<Rightarrow> Throws
      | Some cell \<Rightarrow>
          let formula = getFormula cell;
              error = getError cell
          in if error \<noteq> '''' \<and> error \<noteq> emptyFormula g then Returns (Fin 0, error)
             else if length formula = 0 then Returns (Fin 0, invalidCell g)
             else Returns (getValue cell, ''''))"

definition run_applyOperator :: "Globals \<Rightarrow> string \<Rightarrow> Frame \<Rightarrow> unit completion \<times> Frame" where
  "run_applyOperator g operator fr =
     (let (operand2, values1) = pop (frameValues fr);
          (operand1, values2) = pop values1;
          fr2 = fr\<lparr>frameValues := values2\<rparr>
      in if operator = ''+''
           then (Returns (),
                 fr2\<lparr>frameValues := push (js_add (ToNumber operand1) (ToNumber operand2)) values2\<rparr>)
         else if operator = ''-''
           then (Returns (),
                 fr2\<lparr>frameValues := push (js_sub (ToNumber operand1) (ToNumber operand2)) values2\<rparr>)
         else if operator = ''*''
           then (Returns (),
                 fr2\<lparr>frameValues := push (js_mul (ToNumber operand1) (ToNumber operand2)) values2\<rparr>)
         else if operator = ''/''
           then (if strictEqualsZero operand2
                 then (Throws, fr2\<lparr>frameMessage := divideByZero g\<rparr>)
                 else (Returns (),
                       fr2\<lparr>frameValues :=
                         push (js_div (ToNumber operand1) (ToNumber operand2)) values2\<rparr>))
         else (Throws, fr2\<lparr>frameMessage := invalidOperator g\<rparr>))"

text \<open>The three \<^verbatim>\<open>while\<close> statements; each iteration pops the operator and applies it.\<close>

partial_function (option) run_whileToParen ::
  "Globals \<Rightarrow> Frame \<Rightarrow> (unit completion \<times> Frame) option" where
  "run_whileToParen g fr =
     (case frameOperators fr of
        [] \<Rightarrow> Some (Returns (), fr)
      | opr # rest \<Rightarrow>
          if opr \<noteq> ''(''
          then (let r = run_applyOperator g opr (fr\<lparr>frameOperators := rest\<rparr>)
                in if fst r = Throws then Some r else run_whileToParen g (snd r))
          else Some (Returns (), fr))"

partial_function (option) run_whileByPrecedence ::
  "Globals \<Rightarrow> token \<Rightarrow> Frame \<Rightarrow> (unit completion \<times> Frame) option" where
  "run_whileByPrecedence g token fr =
     (case frameOperators fr of
        [] \<Rightarrow> Some (Returns (), fr)
      | opr # rest \<Rightarrow>
          if getOperatorPrecedence token \<le> getOperatorPrecedence opr
          then (let r = run_applyOperator g opr (fr\<lparr>frameOperators := rest\<rparr>)
                in if fst r = Throws then Some r else run_whileByPrecedence g token (snd r))
          else Some (Returns (), fr))"

partial_function (option) run_whileAll ::
  "Globals \<Rightarrow> Frame \<Rightarrow> (unit completion \<times> Frame) option" where
  "run_whileAll g fr =
     (case frameOperators fr of
        [] \<Rightarrow> Some (Returns (), fr)
      | opr # rest \<Rightarrow>
          (let r = run_applyOperator g opr (fr\<lparr>frameOperators := rest\<rparr>)
           in if fst r = Throws then Some r else run_whileAll g (snd r)))"

text \<open>The body of the \<^verbatim>\<open>for\<close> loop, for one token.\<close>

definition run_iteration ::
  "Globals \<Rightarrow> Lookup \<Rightarrow> token \<Rightarrow> Frame \<Rightarrow> (unit completion \<times> Frame) option" where
  "run_iteration g lookup token fr =
     (if isNumber token
        then Some (Returns (), fr\<lparr>frameValues := push (Number token) (frameValues fr)\<rparr>)
      else if isCellReference g token then
        (case run_getCellValue g lookup token of
           Throws \<Rightarrow> Some (Throws, fr)
         | Returns (value, error) \<Rightarrow>
             if error \<noteq> '''' then Some (Throws, fr\<lparr>frameMessage := error\<rparr>)
             else Some (Returns (), fr\<lparr>frameValues := push value (frameValues fr)\<rparr>))
      else if token = ''(''
        then Some (Returns (), fr\<lparr>frameOperators := push token (frameOperators fr)\<rparr>)
      else if token = '')'' then
        (case run_whileToParen g fr of
           None \<Rightarrow> None
         | Some r \<Rightarrow>
             if fst r = Throws then Some r
             else Some (Returns (),
                        (snd r)\<lparr>frameOperators := snd (pop (frameOperators (snd r)))\<rparr>))
      else if isOperator token then
        (case run_whileByPrecedence g token fr of
           None \<Rightarrow> None
         | Some r \<Rightarrow>
             if fst r = Throws then Some r
             else Some (Returns (),
                        (snd r)\<lparr>frameOperators := push token (frameOperators (snd r))\<rparr>))
      else Some (Returns (), fr))"

partial_function (option) run_for ::
  "Globals \<Rightarrow> Lookup \<Rightarrow> token list \<Rightarrow> nat \<Rightarrow> Frame \<Rightarrow> (unit completion \<times> Frame) option" where
  "run_for g lookup tokens i fr =
     (if i < length tokens
      then (case run_iteration g lookup (tokens ! i) fr of
              None \<Rightarrow> None
            | Some r \<Rightarrow> if fst r = Throws then Some r else run_for g lookup tokens (i + 1) (snd r))
      else Some (Returns (), fr))"

text \<open>
  \<^verbatim>\<open>evaluateExpression\<close>, from the content of \<^verbatim>\<open>_errorMessage\<close> at the call to a number
  or a throw, with the content of the field afterwards.
\<close>

definition run_evaluateExpression ::
  "Globals \<Rightarrow> Lookup \<Rightarrow> token list \<Rightarrow> string \<Rightarrow> (jsnum completion \<times> string) option" where
  "run_evaluateExpression g lookup tokens message =
     (case run_for g lookup tokens 0
             \<lparr>frameValues = [], frameOperators = [], frameMessage = message\<rparr> of
        None \<Rightarrow> None
      | Some r \<Rightarrow>
          if fst r = Throws then Some (Throws, frameMessage (snd r))
          else (case run_whileAll g (snd r) of
                  None \<Rightarrow> None
                | Some r' \<Rightarrow>
                    if fst r' = Throws then Some (Throws, frameMessage (snd r'))
                    else if length (frameValues (snd r')) \<noteq> 1 then Some (Throws, invalidFormula g)
                    else Some (Returns (orZero (fst (pop (frameValues (snd r'))))),
                               frameMessage (snd r'))))"

text \<open>
  \<^verbatim>\<open>evaluate\<close>: the reset, the early return, and the \<^verbatim>\<open>try\<close> statement, whose handler
  runs when the block throws and completes normally. The lookup stands for
  \<^verbatim>\<open>this._sheetMemory.getCellByLabel\<close>.
\<close>

definition run_evaluate ::
  "Globals \<Rightarrow> Lookup \<Rightarrow> FormulaEvaluator \<Rightarrow> token list
     \<Rightarrow> (unit completion \<times> FormulaEvaluator) option" where
  "run_evaluate g lookup this formula =
     (let this1 = this\<lparr>errorMessage := '''', result := Fin 0\<rparr>
      in if length formula = 0 then Some (Returns (), this1\<lparr>errorMessage := emptyFormula g\<rparr>)
         else (case run_evaluateExpression g lookup formula (errorMessage this1) of
                 None \<Rightarrow> None
               | Some (Returns r, message) \<Rightarrow>
                   Some (Returns (), this1\<lparr>errorMessage := message, result := r\<rparr>)
               | Some (Throws, message) \<Rightarrow>
                   Some (Returns (),
                         (this1\<lparr>errorMessage := message\<rparr>)\<lparr>errorMessage := invalidFormula g\<rparr>)))"

text \<open>
  How a step of the run corresponds to a value of the functions above: a normal
  completion with the stacks they return and the field untouched, or a throw with the
  field holding the message they return.
\<close>

fun corresponds ::
  "(unit completion \<times> Frame) option \<Rightarrow> Frame \<Rightarrow> string + (jsnum list \<times> string list) \<Rightarrow> bool" where
  "corresponds r fr (Inr (vs, os)) =
     (r = Some (Returns (), fr\<lparr>frameValues := vs, frameOperators := os\<rparr>))"
| "corresponds r fr (Inl m) =
     (case r of
        None \<Rightarrow> False
      | Some (c, fr') \<Rightarrow> c = Throws \<and> frameMessage fr' = m)"

text \<open>A lookup that throws for every label, and one that never throws.\<close>

definition throwingLookup :: Lookup where
  "throwingLookup label = None"

definition lookupOf :: "SheetMemory \<Rightarrow> Lookup" where
  "lookupOf mem label = Some (mem label)"

section \<open>Standard infix evaluation\<close>

text \<open>
  The reference the evaluator is compared with, written from the specification's words:
  an arithmetic-only formula is a sum of products of factors, a factor being a number
  literal or a parenthesised formula. The shape of the tree is the reading of the token
  sequence in which \<^verbatim>\<open>*\<close> and \<^verbatim>\<open>/\<close> bind tighter than \<^verbatim>\<open>+\<close> and \<^verbatim>\<open>-\<close>, operators of
  equal precedence associate to the left, and parentheses override both.
\<close>

datatype infix_expr = ETerm infix_term | EAdd infix_expr infix_term | ESub infix_expr infix_term
  and infix_term = TFactor infix_factor | TMul infix_term infix_factor | TDiv infix_term infix_factor
  and infix_factor = FNumber token | FParen infix_expr

text \<open>The token sequence a tree is the reading of.\<close>

primrec tokens_expr :: "infix_expr \<Rightarrow> token list"
  and tokens_term :: "infix_term \<Rightarrow> token list"
  and tokens_factor :: "infix_factor \<Rightarrow> token list" where
  "tokens_expr (ETerm t) = tokens_term t"
| "tokens_expr (EAdd e t) = tokens_expr e @ ''+'' # tokens_term t"
| "tokens_expr (ESub e t) = tokens_expr e @ ''-'' # tokens_term t"
| "tokens_term (TFactor f) = tokens_factor f"
| "tokens_term (TMul t f) = tokens_term t @ ''*'' # tokens_factor f"
| "tokens_term (TDiv t f) = tokens_term t @ ''/'' # tokens_factor f"
| "tokens_factor (FNumber n) = [n]"
| "tokens_factor (FParen e) = ''('' # tokens_expr e @ ['')'']"

text \<open>Every leaf is a token the evaluator classifies as a number literal.\<close>

primrec literals_expr :: "infix_expr \<Rightarrow> bool"
  and literals_term :: "infix_term \<Rightarrow> bool"
  and literals_factor :: "infix_factor \<Rightarrow> bool" where
  "literals_expr (ETerm t) = literals_term t"
| "literals_expr (EAdd e t) = (literals_expr e \<and> literals_term t)"
| "literals_expr (ESub e t) = (literals_expr e \<and> literals_term t)"
| "literals_term (TFactor f) = literals_factor f"
| "literals_term (TMul t f) = (literals_term t \<and> literals_factor f)"
| "literals_term (TDiv t f) = (literals_term t \<and> literals_factor f)"
| "literals_factor (FNumber n) = isNumber n"
| "literals_factor (FParen e) = literals_expr e"

text \<open>
  The value of a tree, in the arithmetic of the language. A quotient whose divisor is
  a zero (also the zero an underflow leaves) has no value, and neither has a formula
  that contains one.
\<close>

definition lift2 ::
  "(jsnum \<Rightarrow> jsnum \<Rightarrow> jsnum) \<Rightarrow> jsnum option \<Rightarrow> jsnum option \<Rightarrow> jsnum option" where
  "lift2 f x y =
     (case x of None \<Rightarrow> None
      | Some a \<Rightarrow> (case y of None \<Rightarrow> None | Some b \<Rightarrow> Some (f a b)))"

definition quotient :: "jsnum option \<Rightarrow> jsnum option \<Rightarrow> jsnum option" where
  "quotient x y =
     (case x of None \<Rightarrow> None
      | Some a \<Rightarrow>
          (case y of None \<Rightarrow> None
           | Some b \<Rightarrow> if isZero b then None else Some (js_div a b)))"

primrec value_expr :: "infix_expr \<Rightarrow> jsnum option"
  and value_term :: "infix_term \<Rightarrow> jsnum option"
  and value_factor :: "infix_factor \<Rightarrow> jsnum option" where
  "value_expr (ETerm t) = value_term t"
| "value_expr (EAdd e t) = lift2 js_add (value_expr e) (value_term t)"
| "value_expr (ESub e t) = lift2 js_sub (value_expr e) (value_term t)"
| "value_term (TFactor f) = value_factor f"
| "value_term (TMul t f) = lift2 js_mul (value_term t) (value_factor f)"
| "value_term (TDiv t f) = quotient (value_term t) (value_factor f)"
| "value_factor (FNumber n) = Some (Number n)"
| "value_factor (FParen e) = value_expr e"

text \<open>
  Five formulas as trees: \<^verbatim>\<open>2 + 3 * 4\<close>, \<^verbatim>\<open>( 2 + 3 ) * 4\<close>, \<^verbatim>\<open>8 - 3 - 2\<close>,
  \<^verbatim>\<open>5 / 0\<close> and \<^verbatim>\<open>Infinity - Infinity\<close>.
\<close>

definition sumThenProduct :: infix_expr where
  "sumThenProduct =
     EAdd (ETerm (TFactor (FNumber ''2''))) (TMul (TFactor (FNumber ''3'')) (FNumber ''4''))"

definition parenthesisedSum :: infix_expr where
  "parenthesisedSum =
     ETerm (TMul
       (TFactor (FParen (EAdd (ETerm (TFactor (FNumber ''2''))) (TFactor (FNumber ''3'')))))
       (FNumber ''4''))"

definition twoDifferences :: infix_expr where
  "twoDifferences =
     ESub (ESub (ETerm (TFactor (FNumber ''8''))) (TFactor (FNumber ''3'')))
       (TFactor (FNumber ''2''))"

definition fiveByZero :: infix_expr where
  "fiveByZero = ETerm (TDiv (TFactor (FNumber ''5'')) (FNumber ''0''))"

definition infinityMinusInfinity :: infix_expr where
  "infinityMinusInfinity =
     ESub (ETerm (TFactor (FNumber ''Infinity''))) (TFactor (FNumber ''Infinity''))"

text \<open>\<^verbatim>\<open>isFinite\<close> of the language: neither NaN nor an infinity.\<close>

fun isFinite :: "jsnum \<Rightarrow> bool" where
  "isFinite (Fin a) = True"
| "isFinite NegZero = True"
| "isFinite _ = False"

text \<open>
  What the results on operators and parentheses ask of the label validator, which is
  tried before them in the scan: it accepts none of the six symbols.
\<close>

definition symbols_not_labels :: "Globals \<Rightarrow> bool" where
  "symbols_not_labels g =
     list_all (\<lambda>t. \<not> isValidCellLabel g t) [''('', '')'', ''+'', ''-'', ''*'', ''/'']"

text \<open>A token none of the five branches of the scan takes.\<close>

definition unrecognized :: "Globals \<Rightarrow> token \<Rightarrow> bool" where
  "unrecognized g t =
     (\<not> isNumber t \<and> \<not> isCellReference g t \<and> t \<noteq> ''('' \<and> t \<noteq> '')'' \<and> \<not> isOperator t)"

text \<open>
  Two notions for the proof of the scan. The operator stack is \<open>below p\<close> when it is
  empty or its top has precedence less than \<open>p\<close>. A pair of stacks \<open>reduces_like\<close>
  another one up to precedence \<open>p\<close> when the three reductions cannot tell them
  apart (the precedence loop for incoming operators of precedence at most \<open>p\<close>).
\<close>

definition below :: "nat \<Rightarrow> string list \<Rightarrow> bool" where
  "below p operators =
     (case operators of [] \<Rightarrow> True | opr # _ \<Rightarrow> getOperatorPrecedence opr < p)"

definition reduces_like ::
  "Globals \<Rightarrow> nat \<Rightarrow> jsnum list \<times> string list \<Rightarrow> jsnum list \<times> string list \<Rightarrow> bool" where
  "reduces_like g p s' s =
     (reduceToParen g (snd s') (fst s') = reduceToParen g (snd s) (fst s) \<and>
      reduceAll g (snd s') (fst s') = reduceAll g (snd s) (fst s) \<and>
      (\<forall>tok. isOperator tok \<and> getOperatorPrecedence tok \<le> p \<longrightarrow>
         reduceByPrecedence g tok (snd s') (fst s') =
         reduceByPrecedence g tok (snd s) (fst s)))"

section \<open>An instance of the imports\<close>

text \<open>
  Modelled from the spec: \<^verbatim>\<open>GlobalDefinitions.ts\<close> and \<^verbatim>\<open>Cell.ts\<close> are not under
  \<^verbatim>\<open>src/\<close>. The five messages are the error kinds of the specification's section 7
  under the names it gives them, and the validator is the label rule it gives as its
  example, one column letter followed by a row number. The general results below hold
  for every value of the record; this instance serves the concrete evaluations.
\<close>

definition specGlobals :: Globals where
  "specGlobals =
     \<lparr>emptyFormula = ''EmptyFormula'',
      invalidFormula = ''InvalidFormula'',
      divideByZero = ''DivideByZero'',
      invalidOperator = ''InvalidOperator'',
      invalidCell = ''InvalidCell'',
      isValidCellLabel =
        (\<lambda>t. case t of
               [] \<Rightarrow> False
             | c # ds \<Rightarrow>
                 c \<in> set ''ABCDEFGHIJKLMNOPQRSTUVWXYZ'' \<and> ds \<noteq> [] \<and> list_all isDecimalDigit ds)\<rparr>"

text \<open>
  A sheet for the concrete evaluations: \<^verbatim>\<open>A1\<close> holds a formula that failed with the
  division error, \<^verbatim>\<open>B2\<close> is an empty cell, every other cell holds the formula
  \<^verbatim>\<open>7\<close> and its value. The evaluator over it is taken after some earlier call.
\<close>

definition exampleSheet :: SheetMemory where
  "exampleSheet label =
     (if label = ''A1''
        then \<lparr>getFormula = [''1'', ''/'', ''0''], getError = ''DivideByZero'', getValue = Fin 0\<rparr>
      else if label = ''B2''
        then \<lparr>getFormula = [], getError = ''EmptyFormula'', getValue = Fin 0\<rparr>
      else \<lparr>getFormula = [''7''], getError = '''', getValue = Fin 7\<rparr>)"

definition exampleEvaluator :: FormulaEvaluator where
  "exampleEvaluator =
     \<lparr>sheetMemory = exampleSheet, errorMessage = ''InvalidCell'', result = Fin 42\<rparr>"

section \<open>Properties\<close>

subsection \<open>Evaluating the conversion and the instance\<close>

lemmas Number_unfold = Number_def trim_def isStrWhiteSpaceChar_def nonDecimalIntegerLiteral_def
  strUnsignedDecimalLiteral_def isDecimalDigit_def exponentPart_def digitsValue_def digitValue_def
  scale10_def

lemma ilog2_numeral:
  "ilog2 (numeral k) = (if numeral k < (2::int) then 0 else 1 + ilog2 (numeral k div 2))"
  by (rule ilog2.simps)

lemma ilog2_small: "ilog2 0 = 0" "ilog2 1 = 0"
  by (subst ilog2.simps, simp)+

lemma floor_rat_numeral:
  "\<lfloor>(numeral a :: rat) / numeral b\<rfloor> = numeral a div numeral b"
  using floor_divide_of_int_eq[of "numeral a" "numeral b", where ?'a = rat] by simp

lemma ceiling_rat_numeral:
  "\<lceil>(numeral a :: rat) / numeral b\<rceil> = - (- numeral a div numeral b)"
  using ceiling_divide_eq_div[of "numeral a" "numeral b", where ?'a = rat] by simp

lemmas roundToDouble_unfold = roundToDouble_def floorLog2_def ilog2_numeral ilog2_small pow2_def
  roundHalfEven_def floor_rat_numeral ceiling_rat_numeral Let_def

lemma roundToDouble_examples:
  "roundToDouble False 0 = Fin 0" "roundToDouble False 2 = Fin 2" "roundToDouble False 3 = Fin 3"
  "roundToDouble False 4 = Fin 4" "roundToDouble False 5 = Fin 5" "roundToDouble False 8 = Fin 8"
  "roundToDouble False 12 = Fin 12" "roundToDouble False 14 = Fin 14"
  "roundToDouble False 20 = Fin 20" "roundToDouble False (3 / 2) = Fin (3 / 2)"
  by (simp_all add: roundToDouble_unfold)

text \<open>
  Rounding on examples: the literals \<^verbatim>\<open>0.1\<close>, \<^verbatim>\<open>0.2\<close> and \<^verbatim>\<open>0.3\<close> are not binary
  fractions, their sum and difference are rounded, and \<^verbatim>\<open>1e-400\<close> is too small for a
  non-zero binary64 value.
\<close>

lemma rounded_literals:
  "Number ''0.1'' = Fin (3602879701896397 / 36028797018963968)"
  "Number ''0.2'' = Fin (3602879701896397 / 18014398509481984)"
  "Number ''0.3'' = Fin (5404319552844595 / 18014398509481984)"
  by (simp_all add: Number_unfold roundToDouble_unfold)

lemma rounded_operations:
  "js_add (Fin (3602879701896397 / 36028797018963968)) (Fin (3602879701896397 / 18014398509481984))
     = Fin (1351079888211149 / 4503599627370496)"
  "js_sub (Fin (1351079888211149 / 4503599627370496)) (Fin (5404319552844595 / 18014398509481984))
     = Fin (1 / 18014398509481984)"
  "js_div (Fin 1) (Fin (1 / 18014398509481984)) = Fin 18014398509481984"
  by (simp_all add: js_sub_def js_add_def js_div_def roundToDouble_unfold)

lemma underflowing_literal: "Number ''1e-400'' = Fin 0"
  by (simp add: Number_unfold decimalDigits_def roundToDouble_unfold)

lemma symbols_not_numbers:
  "\<not> isNumber ''(''" "\<not> isNumber '')''" "\<not> isNumber ''+''" "\<not> isNumber ''-''"
  "\<not> isNumber ''*''" "\<not> isNumber ''/''"
  by (simp_all add: isNumber_def Number_unfold)

lemma Number_examples:
  "Number ''0'' = Fin 0" "Number ''2'' = Fin 2" "Number ''3'' = Fin 3" "Number ''4'' = Fin 4"
  "Number ''5'' = Fin 5" "Number ''8'' = Fin 8" "Number ''1.5'' = Fin (3 / 2)"
  "Number ''Infinity'' = PInf" "Number ''$'' = NaN" "Number ''A1'' = NaN" "Number ''B2'' = NaN"
  by (simp_all add: Number_unfold roundToDouble_examples)

lemma isNumber_examples:
  "isNumber ''0''" "isNumber ''2''" "isNumber ''3''" "isNumber ''4''" "isNumber ''5''"
  "isNumber ''8''" "isNumber ''1.5''" "isNumber ''Infinity''" "\<not> isNumber ''$''"
  "\<not> isNumber ''A1''" "\<not> isNumber ''B2''"
  by (simp_all add: isNumber_def Number_examples)

lemma specGlobals_fields:
  "emptyFormula specGlobals = ''EmptyFormula''"
  "invalidFormula specGlobals = ''InvalidFormula''"
  "divideByZero specGlobals = ''DivideByZero''"
  "invalidOperator specGlobals = ''InvalidOperator''"
  "invalidCell specGlobals = ''InvalidCell''"
  by (simp_all add: specGlobals_def)

lemma specGlobals_labels:
  "isValidCellLabel specGlobals ''A1''" "isValidCellLabel specGlobals ''B2''"
  "\<not> isValidCellLabel specGlobals ''$''"
  by (simp_all add: specGlobals_def isDecimalDigit_def)

lemma specGlobals_symbols: "symbols_not_labels specGlobals"
  by (simp add: symbols_not_labels_def specGlobals_def)

subsection \<open>The three ways out of evaluate\<close>

lemma evaluate_empty:
  "evaluate g this [] = this\<lparr>errorMessage := emptyFormula g, result := Fin 0\<rparr>"
  by (simp add: evaluate_def)

lemma evaluate_returns:
  "formula \<noteq> [] \<Longrightarrow> evaluateExpression g (sheetMemory this) formula = Inr r \<Longrightarrow>
     evaluate g this formula = this\<lparr>errorMessage := '''', result := r\<rparr>"
  by (simp add: evaluate_def)

lemma evaluate_throws:
  "formula \<noteq> [] \<Longrightarrow> evaluateExpression g (sheetMemory this) formula = Inl m \<Longrightarrow>
     evaluate g this formula = this\<lparr>errorMessage := invalidFormula g, result := Fin 0\<rparr>"
  by (simp add: evaluate_def)

lemma evaluate_cases:
  "(\<exists>r. evaluate g this formula = this\<lparr>errorMessage := '''', result := r\<rparr>) \<or>
   evaluate g this formula = this\<lparr>errorMessage := emptyFormula g, result := Fin 0\<rparr> \<or>
   evaluate g this formula = this\<lparr>errorMessage := invalidFormula g, result := Fin 0\<rparr>"
proof (cases "formula = []")
  case True
  then show ?thesis by (simp add: evaluate_empty)
next
  case False
  show ?thesis
  proof (cases "evaluateExpression g (sheetMemory this) formula")
    case (Inl m)
    with False show ?thesis by (simp add: evaluate_throws)
  next
    case (Inr r)
    with False have "evaluate g this formula = this\<lparr>errorMessage := '''', result := r\<rparr>"
      by (rule evaluate_returns)
    then show ?thesis by blast
  qed
qed

lemma evaluate_sheetMemory: "sheetMemory (evaluate g this formula) = sheetMemory this"
  using evaluate_cases[of g this formula] by auto

text \<open>
  Inside \<^verbatim>\<open>evaluate\<close>, a quotient of \<^verbatim>\<open>5\<close> by a literal that converts to a zero
  throws with the division message: so for \<^verbatim>\<open>5 / 0\<close>, and for \<^verbatim>\<open>5 / 1e-400\<close>.
\<close>

lemma divide_by_zero_literal:
  assumes "\<not> isValidCellLabel g ''/''" "isNumber d" "isZero (Number d)"
  shows "evaluateExpression g mem [''5'', ''/'', d] = Inl (divideByZero g)"
  using assms
  by (simp add: evaluateExpression_def isNumber_examples Number_examples symbols_not_numbers
      isCellReference_def isOperator_def push_def applyOperator_def)

lemma divide_by_zero_thrown:
  "\<not> isValidCellLabel g ''/'' \<Longrightarrow> evaluateExpression g mem [''5'', ''/'', ''0''] = Inl (divideByZero g)"
  by (rule divide_by_zero_literal) (simp_all add: isNumber_examples Number_examples)

lemma divide_by_underflow_thrown:
  "\<not> isValidCellLabel g ''/'' \<Longrightarrow>
     evaluateExpression g mem [''5'', ''/'', ''1e-400''] = Inl (divideByZero g)"
  by (rule divide_by_zero_literal) (simp_all add: isNumber_def underflowing_literal)

text \<open>
  Claim C7. After \<^verbatim>\<open>evaluate\<close> returns, a non-empty error message comes with the
  result 0.
\<close>

theorem C7_error_excludes_result:
  "errorMessage (evaluate g this formula) \<noteq> '''' \<Longrightarrow> result (evaluate g this formula) = Fin 0"
  using evaluate_cases[of g this formula] by auto

text \<open>The empty formula leaves a non-empty message and the result 0.\<close>

theorem C7_error_excludes_result_witness:
  "errorMessage (evaluate specGlobals exampleEvaluator []) \<noteq> '''' \<and>
   result (evaluate specGlobals exampleEvaluator []) = Fin 0"
proof -
  have "errorMessage (evaluate specGlobals exampleEvaluator []) \<noteq> ''''"
    by (simp add: evaluate_empty specGlobals_fields)
  with C7_error_excludes_result[of specGlobals exampleEvaluator "[]"] show ?thesis by simp
qed

text \<open>
  Claim C8. A second call of \<^verbatim>\<open>evaluate\<close> with the same tokens over the same sheet
  leaves the evaluator as the first call left it, and what the two fields held before
  a call does not influence it.
\<close>

theorem C8_idempotent:
  "evaluate g (evaluate g this formula) formula = evaluate g this formula \<and>
   evaluate g (this\<lparr>errorMessage := e, result := r\<rparr>) formula = evaluate g this formula"
  by (simp add: evaluate_def Let_def split: sum.splits)

text \<open>
  Claim C5. When the scan of a non-empty token sequence completes and the final
  reduction leaves a number of values other than one, \<^verbatim>\<open>evaluate\<close> reports the
  invalid-formula message (and result 0); the sequence \<^verbatim>\<open>2 3\<close> is an instance.
\<close>

theorem C5_residual_values:
  "(tokens \<noteq> [] \<and> scan g (sheetMemory this) tokens [] [] = Inr (values, operators) \<and>
    reduceAll g operators values = Inr values' \<and> length values' \<noteq> 1 \<longrightarrow>
      errorMessage (evaluate g this tokens) = invalidFormula g \<and>
      result (evaluate g this tokens) = Fin 0) \<and>
   errorMessage (evaluate g this [''2'', ''3'']) = invalidFormula g"
proof -
  have "evaluateExpression g (sheetMemory this) tokens = Inl (invalidFormula g)"
    if "scan g (sheetMemory this) tokens [] [] = Inr (values, operators)"
      "reduceAll g operators values = Inr values'" "length values' \<noteq> 1"
    using that by (simp add: evaluateExpression_def)
  moreover have "evaluateExpression g (sheetMemory this) [''2'', ''3''] = Inl (invalidFormula g)"
    by (simp add: evaluateExpression_def isNumber_examples push_def)
  ultimately show ?thesis by (auto simp add: evaluate_throws)
qed

text \<open>For \<^verbatim>\<open>2 3\<close> the scan ends with two values and no operator.\<close>

theorem C5_residual_values_witness:
  "scan specGlobals (sheetMemory exampleEvaluator) [''2'', ''3''] [] [] = Inr ([Fin 3, Fin 2], []) \<and>
   reduceAll specGlobals [] [Fin 3, Fin 2] = Inr [Fin 3, Fin 2] \<and>
   errorMessage (evaluate specGlobals exampleEvaluator [''2'', ''3'']) = ''InvalidFormula'' \<and>
   result (evaluate specGlobals exampleEvaluator [''2'', ''3'']) = Fin 0"
proof -
  have sc: "scan specGlobals (sheetMemory exampleEvaluator) [''2'', ''3''] [] [] = Inr ([Fin 3, Fin 2], [])"
    by (simp add: isNumber_examples Number_examples push_def)
  have rd: "reduceAll specGlobals [] [Fin 3, Fin 2] = Inr [Fin 3, Fin 2]" by simp
  from sc rd
    C5_residual_values[of "[''2'', ''3'']" specGlobals exampleEvaluator "[Fin 3, Fin 2]" "[]" "[Fin 3, Fin 2]"]
  show ?thesis by (simp add: specGlobals_fields)
qed

text \<open>
  Claim C6. For the empty token sequence, \<^verbatim>\<open>evaluate\<close> reports the empty-formula
  message and the result is 0, whatever the evaluator held before.
\<close>

theorem C6_empty_formula:
  "errorMessage (evaluate g this []) = emptyFormula g \<and> result (evaluate g this []) = Fin 0"
  by (simp add: evaluate_def)

subsection \<open>Steps of the scan\<close>

lemma scan_append:
  "scan g mem (xs @ ys) vs os =
     (case scan g mem xs vs os of Inl m \<Rightarrow> Inl m | Inr (vs', os') \<Rightarrow> scan g mem ys vs' os')"
proof (induction xs arbitrary: vs os)
  case Nil
  show ?case by simp
next
  case (Cons t xs)
  consider (number) "isNumber t"
    | (cell) "\<not> isNumber t" "isCellReference g t"
    | (lparen) "\<not> isNumber t" "\<not> isCellReference g t" "t = ''(''"
    | (rparen) "\<not> isNumber t" "\<not> isCellReference g t" "t \<noteq> ''(''" "t = '')''"
    | (operator) "\<not> isNumber t" "\<not> isCellReference g t" "t \<noteq> ''(''" "t \<noteq> '')''"
        "isOperator t"
    | (other) "\<not> isNumber t" "\<not> isCellReference g t" "t \<noteq> ''(''" "t \<noteq> '')''"
        "\<not> isOperator t"
    by blast
  then show ?case
  proof cases
    case number
    then show ?thesis by (simp add: Cons.IH)
  next
    case cell
    then show ?thesis by (simp add: Cons.IH split: prod.split)
  next
    case lparen
    then show ?thesis by (simp add: Cons.IH)
  next
    case rparen
    then show ?thesis by (simp add: Cons.IH split: sum.split prod.split)
  next
    case operator
    then show ?thesis by (simp add: Cons.IH split: sum.split prod.split)
  next
    case other
    then show ?thesis by (simp add: Cons.IH)
  qed
qed

lemma scan_number:
  "isNumber t \<Longrightarrow> scan g mem (t # rest) vs os = scan g mem rest (Number t # vs) os"
  by (simp add: push_def)

lemma scan_open:
  "symbols_not_labels g \<Longrightarrow> scan g mem (''('' # rest) vs os = scan g mem rest vs (''('' # os)"
  by (simp add: symbols_not_numbers symbols_not_labels_def isCellReference_def push_def)

lemma scan_close:
  "symbols_not_labels g \<Longrightarrow> scan g mem ('')'' # rest) vs os =
     (case reduceToParen g os vs of Inl m \<Rightarrow> Inl m
      | Inr (vs', os') \<Rightarrow> scan g mem rest vs' (snd (pop os')))"
  by (simp add: symbols_not_numbers symbols_not_labels_def isCellReference_def)

lemma scan_operator:
  assumes "symbols_not_labels g" "isOperator t"
  shows "scan g mem (t # rest) vs os =
     (case reduceByPrecedence g t os vs of Inl m \<Rightarrow> Inl m
      | Inr (vs', os') \<Rightarrow> scan g mem rest vs' (t # os'))"
proof -
  have nn: "\<not> isNumber t"
    using assms(2) symbols_not_numbers by (auto simp add: isOperator_def)
  have nc: "\<not> isCellReference g t"
    using assms by (auto simp add: isOperator_def symbols_not_labels_def isCellReference_def)
  have np: "t \<noteq> ''(''" "t \<noteq> '')''"
    using assms(2) by (auto simp add: isOperator_def)
  show ?thesis
    using nn nc np assms(2) by (simp add: push_def split: sum.split prod.split)
qed

lemma scan_unrecognized:
  "unrecognized g t \<Longrightarrow> scan g mem (t # rest) vs os = scan g mem rest vs os"
  by (simp add: unrecognized_def)

lemma evaluateExpression_scan_throws:
  "scan g mem tokens [] [] = Inl m \<Longrightarrow> evaluateExpression g mem tokens = Inl m"
  by (simp add: evaluateExpression_def)

text \<open>
  Claim C10. A token that is no number literal, no valid cell label, no parenthesis and
  no operator is skipped by the scan: the stacks stay as they are and no error is
  recorded, so a formula evaluates as if the token were not there. The sequence of
  \<^verbatim>\<open>2\<close> and such a token evaluates to 2 with no error.
\<close>

theorem C10_unrecognized_skipped:
  assumes "unrecognized g t"
  shows "scan g mem (t # rest) values operators = scan g mem rest values operators \<and>
         evaluateExpression g mem (pre @ t # rest) = evaluateExpression g mem (pre @ rest) \<and>
         evaluate g this [''2'', t] = this\<lparr>errorMessage := '''', result := Fin 2\<rparr>"
proof -
  have step: "scan g m (t # ys) vs os = scan g m ys vs os" for m ys vs os
    using assms by (rule scan_unrecognized)
  have "scan g mem (pre @ t # rest) [] [] = scan g mem (pre @ rest) [] []"
    by (simp add: scan_append step del: scan.simps split: sum.split prod.split)
  then have "evaluateExpression g mem (pre @ t # rest) = evaluateExpression g mem (pre @ rest)"
    by (simp add: evaluateExpression_def)
  moreover have "scan g (sheetMemory this) [''2'', t] [] [] = Inr ([Fin 2], [])"
    by (simp add: scan_number step isNumber_examples Number_examples del: scan.simps(2))
  then have "evaluateExpression g (sheetMemory this) [''2'', t] = Inr (Fin 2)"
    by (simp add: evaluateExpression_def)
  then have "evaluate g this [''2'', t] = this\<lparr>errorMessage := '''', result := Fin 2\<rparr>"
    by (simp add: evaluate_returns)
  ultimately show ?thesis using step by simp
qed

text \<open>The token \<^verbatim>\<open>$\<close> is unrecognized, and \<^verbatim>\<open>2 $\<close> evaluates to 2.\<close>

theorem C10_unrecognized_skipped_witness:
  "unrecognized specGlobals ''$'' \<and>
   errorMessage (evaluate specGlobals exampleEvaluator [''2'', ''$'']) = '''' \<and>
   result (evaluate specGlobals exampleEvaluator [''2'', ''$'']) = Fin 2"
proof -
  have u: "unrecognized specGlobals ''$''"
    by (simp add: unrecognized_def isNumber_examples isCellReference_def specGlobals_labels
        isOperator_def)
  from C10_unrecognized_skipped[OF u, of exampleSheet "[]" "[]" "[]" "[]" exampleEvaluator] u
  show ?thesis by simp
qed

text \<open>
  Claim C9, as amended. The classifier accepts a token exactly when \<^verbatim>\<open>Number(token)\<close>
  is not NaN, that is when it is a finite value or one of the two infinities, and for
  an accepted token the scan pushes \<^verbatim>\<open>Number(token)\<close>.
\<close>

theorem C9_number_classifier:
  "(isNumber t \<longleftrightarrow> isFinite (Number t) \<or> Number t = PInf \<or> Number t = NInf) \<and>
   (isNumber t \<longrightarrow>
      scan g mem (t # rest) values operators = scan g mem rest (Number t # values) operators)"
  by (cases "Number t") (simp_all add: isNumber_def push_def)

text \<open>The token \<^verbatim>\<open>1.5\<close> is accepted and the finite value 3/2 is pushed.\<close>

theorem C9_number_classifier_witness:
  "isNumber ''1.5'' \<and> isFinite (Number ''1.5'') \<and>
   scan specGlobals exampleSheet [''1.5''] [] [] = Inr ([Fin (3 / 2)], [])"
  using C9_number_classifier[of "''1.5''" specGlobals exampleSheet "[]" "[]" "[]"]
  by (simp add: isNumber_examples Number_examples)

text \<open>
  The claim as stated fails: the token \<^verbatim>\<open>Infinity\<close> is accepted, and the value pushed
  for it is not finite.
\<close>

theorem C9_counterexample:
  "isNumber ''Infinity'' \<and> \<not> isFinite (Number ''Infinity'') \<and>
   scan specGlobals exampleSheet [''Infinity''] [] [] = Inr ([PInf], [])"
  by (simp add: isNumber_examples Number_examples push_def)

text \<open>
  Claim C2 fails on the code. For \<^verbatim>\<open>5 / 0\<close> the reduction sets the division message
  and throws, the handler in \<^verbatim>\<open>evaluate\<close> then overwrites the field: the caller reads
  the invalid-formula message. The result is 0 as claimed.
\<close>

theorem C2_division_message_overwritten:
  assumes "\<not> isValidCellLabel g ''/''"
  shows "evaluateExpression g (sheetMemory this) [''5'', ''/'', ''0''] = Inl (divideByZero g) \<and>
         errorMessage (evaluate g this [''5'', ''/'', ''0'']) = invalidFormula g \<and>
         result (evaluate g this [''5'', ''/'', ''0'']) = Fin 0"
  using assms by (simp add: divide_by_zero_thrown evaluate_throws)

text \<open>With the messages named as the error kinds, the caller does not read the division kind.\<close>

theorem C2_division_message_overwritten_witness:
  "errorMessage (evaluate specGlobals exampleEvaluator [''5'', ''/'', ''0'']) = ''InvalidFormula'' \<and>
   divideByZero specGlobals = ''DivideByZero'' \<and>
   result (evaluate specGlobals exampleEvaluator [''5'', ''/'', ''0'']) = Fin 0"
proof -
  have "\<not> isValidCellLabel specGlobals ''/''"
    using specGlobals_symbols by (simp add: symbols_not_labels_def)
  from C2_division_message_overwritten[OF this, of exampleEvaluator]
  show ?thesis by (simp add: specGlobals_fields)
qed

text \<open>
  Claim C3 fails on the code in the same way. At the first reference to a cell that
  holds an error other than the empty-formula message, or whose formula is empty, the
  scan stops: it sets the cell's error, respectively the invalid-cell message, and
  throws without looking at the tokens that follow. The handler in \<^verbatim>\<open>evaluate\<close> then
  overwrites the field with the invalid-formula message.
\<close>

theorem C3_reference_error_overwritten:
  assumes "scan g (sheetMemory this) pre [] [] = Inr (values, operators)"
    and "\<not> isNumber t" and "isValidCellLabel g t"
    and "stored = getError (sheetMemory this t)"
  shows "(stored \<noteq> '''' \<and> stored \<noteq> emptyFormula g \<longrightarrow>
            evaluateExpression g (sheetMemory this) (pre @ t # rest) = Inl stored \<and>
            errorMessage (evaluate g this (pre @ t # rest)) = invalidFormula g) \<and>
         ((stored = '''' \<or> stored = emptyFormula g) \<and> getFormula (sheetMemory this t) = [] \<and>
          invalidCell g \<noteq> '''' \<longrightarrow>
            evaluateExpression g (sheetMemory this) (pre @ t # rest) = Inl (invalidCell g) \<and>
            errorMessage (evaluate g this (pre @ t # rest)) = invalidFormula g)"
proof -
  have thrown: "evaluateExpression g (sheetMemory this) (pre @ t # rest) = Inl err"
    if "getCellValue g (sheetMemory this) t = (x, err)" "err \<noteq> ''''" for x err
  proof -
    have "scan g (sheetMemory this) (t # rest) values operators = Inl err"
      using assms(2,3) that by (simp add: isCellReference_def)
    then have "scan g (sheetMemory this) (pre @ t # rest) [] [] = Inl err"
      using assms(1) by (simp add: scan_append del: scan.simps)
    then show ?thesis by (rule evaluateExpression_scan_throws)
  qed
  have first: "evaluateExpression g (sheetMemory this) (pre @ t # rest) = Inl stored"
    if "stored \<noteq> ''''" "stored \<noteq> emptyFormula g"
    using that assms(4) by (intro thrown[of "Fin 0"]) (simp_all add: getCellValue_def)
  have second: "evaluateExpression g (sheetMemory this) (pre @ t # rest) = Inl (invalidCell g)"
    if "stored = '''' \<or> stored = emptyFormula g" "getFormula (sheetMemory this t) = []"
      "invalidCell g \<noteq> ''''"
    using that assms(4) by (intro thrown[of "Fin 0"]) (auto simp add: getCellValue_def)
  show ?thesis
    using first second by (auto simp add: evaluate_throws)
qed

text \<open>
  On the example sheet, \<^verbatim>\<open>A1\<close> holds the division error and \<^verbatim>\<open>B2\<close> is empty; a
  formula that refers to either ends with the invalid-formula message.
\<close>

theorem C3_reference_error_overwritten_witness:
  "getError (exampleSheet ''A1'') = ''DivideByZero'' \<and>
   errorMessage (evaluate specGlobals exampleEvaluator [''2'', ''+'', ''A1'', ''*'', ''B2''])
     = ''InvalidFormula''"
proof -
  have pre: "scan specGlobals (sheetMemory exampleEvaluator) [''2'', ''+''] [] []
      = Inr ([Fin 2], [''+''])"
    using specGlobals_symbols
    by (simp add: isNumber_examples Number_examples symbols_not_numbers symbols_not_labels_def
        isCellReference_def isOperator_def push_def)
  have stored: "''DivideByZero'' = getError (sheetMemory exampleEvaluator ''A1'')"
    by (simp add: exampleEvaluator_def exampleSheet_def)
  from C3_reference_error_overwritten[OF pre isNumber_examples(10) specGlobals_labels(1) stored,
      of "[''*'', ''B2'']"]
  show ?thesis by (simp add: specGlobals_fields exampleSheet_def)
qed

subsection \<open>The run and the functions agree, and the run ends\<close>

lemma run_applyOperator_eq:
  "run_applyOperator g opr fr =
     (case applyOperator g opr (frameValues fr) of
        Inr vs \<Rightarrow> (Returns (), fr\<lparr>frameValues := vs\<rparr>)
      | Inl m \<Rightarrow>
          (Throws, fr\<lparr>frameValues := snd (pop (snd (pop (frameValues fr)))), frameMessage := m\<rparr>))"
  by (simp add: run_applyOperator_def applyOperator_def Let_def split: prod.split)

lemma run_whileToParen_corresponds:
  "corresponds (run_whileToParen g fr) fr (reduceToParen g (frameOperators fr) (frameValues fr))"
proof (induction os \<equiv> "frameOperators fr" arbitrary: fr)
  case Nil
  then show ?case
    by (subst run_whileToParen.simps) (simp add: Nil[symmetric])
next
  case (Cons opr rest)
  note ops = Cons.hyps(2)[symmetric]
  show ?case
  proof (cases "opr \<noteq> ''(''")
    case False
    then show ?thesis
      by (subst run_whileToParen.simps) (simp add: ops)
  next
    case True
    show ?thesis
    proof (cases "applyOperator g opr (frameValues fr)")
      case (Inl m)
      with True show ?thesis
        by (subst run_whileToParen.simps) (simp add: ops run_applyOperator_eq)
    next
      case (Inr vs)
      have "corresponds (run_whileToParen g (fr\<lparr>frameOperators := rest, frameValues := vs\<rparr>))
          (fr\<lparr>frameOperators := rest, frameValues := vs\<rparr>) (reduceToParen g rest vs)"
        using Cons.hyps(1)[of "fr\<lparr>frameOperators := rest, frameValues := vs\<rparr>"] by simp
      then have "corresponds (run_whileToParen g (fr\<lparr>frameOperators := rest, frameValues := vs\<rparr>))
          fr (reduceToParen g rest vs)"
        by (cases "reduceToParen g rest vs") auto
      with True Inr show ?thesis
        by (subst run_whileToParen.simps) (simp add: ops run_applyOperator_eq)
    qed
  qed
qed

lemma run_whileByPrecedence_corresponds:
  "corresponds (run_whileByPrecedence g token fr) fr (reduceByPrecedence g token (frameOperators fr) (frameValues fr))"
proof (induction os \<equiv> "frameOperators fr" arbitrary: fr)
  case Nil
  then show ?case
    by (subst run_whileByPrecedence.simps) (simp add: Nil[symmetric])
next
  case (Cons opr rest)
  note ops = Cons.hyps(2)[symmetric]
  show ?case
  proof (cases "getOperatorPrecedence token \<le> getOperatorPrecedence opr")
    case False
    then show ?thesis
      by (subst run_whileByPrecedence.simps) (simp add: ops)
  next
    case True
    show ?thesis
    proof (cases "applyOperator g opr (frameValues fr)")
      case (Inl m)
      with True show ?thesis
        by (subst run_whileByPrecedence.simps) (simp add: ops run_applyOperator_eq)
    next
      case (Inr vs)
      have "corresponds (run_whileByPrecedence g token (fr\<lparr>frameOperators := rest, frameValues := vs\<rparr>))
          (fr\<lparr>frameOperators := rest, frameValues := vs\<rparr>) (reduceByPrecedence g token rest vs)"
        using Cons.hyps(1)[of "fr\<lparr>frameOperators := rest, frameValues := vs\<rparr>"] by simp
      then have "corresponds (run_whileByPrecedence g token (fr\<lparr>frameOperators := rest, frameValues := vs\<rparr>))
          fr (reduceByPrecedence g token rest vs)"
        by (cases "reduceByPrecedence g token rest vs") auto
      with True Inr show ?thesis
        by (subst run_whileByPrecedence.simps) (simp add: ops run_applyOperator_eq)
    qed
  qed
qed


lemma run_whileAll_corresponds:
  "corresponds (run_whileAll g fr) fr
     (case reduceAll g (frameOperators fr) (frameValues fr) of
        Inl m \<Rightarrow> Inl m | Inr vs \<Rightarrow> Inr (vs, []))"
proof (induction os \<equiv> "frameOperators fr" arbitrary: fr)
  case Nil
  then show ?case
    by (subst run_whileAll.simps) (simp add: Nil[symmetric])
next
  case (Cons opr rest)
  note ops = Cons.hyps(2)[symmetric]
  show ?case
  proof (cases "applyOperator g opr (frameValues fr)")
    case (Inl m)
    then show ?thesis
      by (subst run_whileAll.simps) (simp add: ops run_applyOperator_eq)
  next
    case (Inr vs)
    let ?fr = "fr\<lparr>frameOperators := rest, frameValues := vs\<rparr>"
    have "corresponds (run_whileAll g ?fr) ?fr
        (case reduceAll g rest vs of Inl m \<Rightarrow> Inl m | Inr vs \<Rightarrow> Inr (vs, []))"
      using Cons.hyps(1)[of ?fr] by simp
    then have "corresponds (run_whileAll g ?fr) fr
        (case reduceAll g rest vs of Inl m \<Rightarrow> Inl m | Inr vs \<Rightarrow> Inr (vs, []))"
      by (cases "reduceAll g rest vs") auto
    with Inr show ?thesis
      by (subst run_whileAll.simps) (simp add: ops run_applyOperator_eq)
  qed
qed

lemma corresponds_ends:
  "corresponds r fr x \<Longrightarrow>
     \<exists>c fr'. r = Some (c, fr') \<and> (c = Returns () \<longrightarrow> frameMessage fr' = frameMessage fr)"
  by (cases x) (auto split: option.splits)

lemma run_iteration_ends:
  "\<exists>c fr'. run_iteration g lookup t fr = Some (c, fr') \<and>
     (c = Returns () \<longrightarrow> frameMessage fr' = frameMessage fr)"
proof -
  obtain c1 fr1 where w1: "run_whileToParen g fr = Some (c1, fr1)"
    "c1 = Returns () \<longrightarrow> frameMessage fr1 = frameMessage fr"
    using corresponds_ends[OF run_whileToParen_corresponds[of g fr]] by blast
  obtain c2 fr2 where w2: "run_whileByPrecedence g t fr = Some (c2, fr2)"
    "c2 = Returns () \<longrightarrow> frameMessage fr2 = frameMessage fr"
    using corresponds_ends[OF run_whileByPrecedence_corresponds[of g t fr]] by blast
  have c: "c = Returns () \<or> c = Throws" for c :: "unit completion"
    by (cases c) auto
  show ?thesis
    using w1 w2 c[of c1] c[of c2]
    by (auto simp add: run_iteration_def split: completion.splits prod.splits)
qed

lemma run_for_ends:
  "\<exists>c fr'. run_for g lookup tokens i fr = Some (c, fr') \<and>
     (c = Returns () \<longrightarrow> frameMessage fr' = frameMessage fr)"
proof (induction n \<equiv> "length tokens - i" arbitrary: i fr)
  case 0
  then show ?case
    by (subst run_for.simps) simp
next
  case (Suc n)
  then have i: "i < length tokens" and n: "n = length tokens - (i + 1)" by simp_all
  obtain c fr1 where it: "run_iteration g lookup (tokens ! i) fr = Some (c, fr1)"
    "c = Returns () \<longrightarrow> frameMessage fr1 = frameMessage fr"
    using run_iteration_ends by blast
  show ?case
  proof (cases c)
    case Throws
    with i it show ?thesis
      by (subst run_for.simps) simp
  next
    case (Returns u)
    obtain c' fr' where rest: "run_for g lookup tokens (i + 1) fr1 = Some (c', fr')"
      "c' = Returns () \<longrightarrow> frameMessage fr' = frameMessage fr1"
      using Suc.hyps(1)[OF n] by blast
    with i it Returns show ?thesis
      by (subst run_for.simps) simp
  qed
qed


lemma corresponds_frame:
  "corresponds r (fr\<lparr>frameValues := vs, frameOperators := os\<rparr>) x \<Longrightarrow> corresponds r fr x"
  by (cases x) auto

lemma run_iteration_corresponds:
  "corresponds (run_iteration g (lookupOf mem) t fr) fr
     (scan g mem [t] (frameValues fr) (frameOperators fr))"
proof -
  consider (number) "isNumber t"
    | (cell) "\<not> isNumber t" "isCellReference g t"
    | (lparen) "\<not> isNumber t" "\<not> isCellReference g t" "t = ''(''"
    | (rparen) "\<not> isNumber t" "\<not> isCellReference g t" "t \<noteq> ''(''" "t = '')''"
    | (operator) "\<not> isNumber t" "\<not> isCellReference g t" "t \<noteq> ''(''" "t \<noteq> '')''"
        "isOperator t"
    | (other) "\<not> isNumber t" "\<not> isCellReference g t" "t \<noteq> ''(''" "t \<noteq> '')''"
        "\<not> isOperator t"
    by blast
  then show ?thesis
  proof cases
    case number
    then show ?thesis by (simp add: run_iteration_def)
  next
    case cell
    then show ?thesis
      by (simp add: run_iteration_def run_getCellValue_def lookupOf_def getCellValue_def Let_def)
  next
    case lparen
    then show ?thesis by (simp add: run_iteration_def)
  next
    case rparen
    with run_whileToParen_corresponds[of g fr] show ?thesis
      by (cases "reduceToParen g (frameOperators fr) (frameValues fr)")
        (auto simp add: run_iteration_def split: option.splits)
  next
    case operator
    with run_whileByPrecedence_corresponds[of g t fr] show ?thesis
      by (cases "reduceByPrecedence g t (frameOperators fr) (frameValues fr)")
        (auto simp add: run_iteration_def split: option.splits)
  next
    case other
    then show ?thesis by (simp add: run_iteration_def)
  qed
qed

lemma run_for_corresponds:
  "corresponds (run_for g (lookupOf mem) tokens i fr) fr
     (scan g mem (drop i tokens) (frameValues fr) (frameOperators fr))"
proof (induction n \<equiv> "length tokens - i" arbitrary: i fr)
  case 0
  then show ?case
    by (subst run_for.simps) simp
next
  case (Suc n)
  then have i: "i < length tokens" and n: "n = length tokens - (i + 1)" by simp_all
  let ?t = "tokens ! i" and ?rest = "drop (i + 1) tokens"
  have unroll: "scan g mem (drop i tokens) vs os =
      (case scan g mem [?t] vs os of Inl m \<Rightarrow> Inl m | Inr (vs', os') \<Rightarrow> scan g mem ?rest vs' os')"
    for vs os
    using scan_append[of g mem "[?t]" ?rest vs os] i
    by (simp add: Cons_nth_drop_Suc del: scan.simps)
  show ?case
  proof (cases "scan g mem [?t] (frameValues fr) (frameOperators fr)")
    case (Inl m)
    with run_iteration_corresponds[of g mem ?t fr] i show ?thesis
      by (subst run_for.simps) (auto simp add: unroll simp del: scan.simps split: option.splits)
  next
    case (Inr s)
    obtain vs os where s: "s = (vs, os)" by (cases s)
    let ?fr = "fr\<lparr>frameValues := vs, frameOperators := os\<rparr>"
    from Inr s run_iteration_corresponds[of g mem ?t fr]
    have it: "run_iteration g (lookupOf mem) ?t fr = Some (Returns (), ?fr)" by simp
    have "corresponds (run_for g (lookupOf mem) tokens (i + 1) ?fr) ?fr (scan g mem ?rest vs os)"
      using Suc.hyps(1)[OF n, of ?fr] by simp
    then have "corresponds (run_for g (lookupOf mem) tokens (i + 1) ?fr) fr (scan g mem ?rest vs os)"
      by (rule corresponds_frame)
    with Inr s it i show ?thesis
      by (subst run_for.simps) (simp add: unroll del: scan.simps)
  qed
qed

lemma run_evaluateExpression_eq:
  "run_evaluateExpression g (lookupOf mem) tokens message =
     Some (case evaluateExpression g mem tokens of
             Inr x \<Rightarrow> (Returns x, message)
           | Inl m \<Rightarrow> (Throws, m))"
proof -
  let ?start = "\<lparr>frameValues = [], frameOperators = [], frameMessage = message\<rparr>"
  have loop: "corresponds (run_for g (lookupOf mem) tokens 0 ?start) ?start (scan g mem tokens [] [])"
    using run_for_corresponds[of g mem tokens 0 ?start] by simp
  show ?thesis
  proof (cases "scan g mem tokens [] []")
    case (Inl m)
    with loop show ?thesis
      by (auto simp add: run_evaluateExpression_def evaluateExpression_def split: option.splits)
  next
    case (Inr s)
    obtain vs os where s: "s = (vs, os)" by (cases s)
    let ?fr = "?start\<lparr>frameValues := vs, frameOperators := os\<rparr>"
    from loop Inr s have run: "run_for g (lookupOf mem) tokens 0 ?start = Some (Returns (), ?fr)"
      by simp
    have final: "corresponds (run_whileAll g ?fr) ?fr
        (case reduceAll g os vs of Inl m \<Rightarrow> Inl m | Inr vs' \<Rightarrow> Inr (vs', []))"
      using run_whileAll_corresponds[of g ?fr] by simp
    show ?thesis
    proof (cases "reduceAll g os vs")
      case (Inl m)
      with final run Inr s show ?thesis
        by (auto simp add: run_evaluateExpression_def evaluateExpression_def split: option.splits)
    next
      case (Inr vs')
      with final run \<open>scan g mem tokens [] [] = Inr s\<close> s show ?thesis
        by (simp add: run_evaluateExpression_def evaluateExpression_def)
    qed
  qed
qed

lemma run_evaluate_eq:
  "run_evaluate g (lookupOf (sheetMemory this)) this formula = Some (Returns (), evaluate g this formula)"
  by (cases "evaluateExpression g (sheetMemory this) formula")
    (simp_all add: run_evaluate_def evaluate_def run_evaluateExpression_eq Let_def)

lemma run_evaluateExpression_ends:
  "\<exists>c m. run_evaluateExpression g lookup tokens message = Some (c, m) \<and>
     (c \<noteq> Throws \<longrightarrow> m = message)"
proof -
  let ?start = "\<lparr>frameValues = [], frameOperators = [], frameMessage = message\<rparr>"
  obtain c fr where loop: "run_for g lookup tokens 0 ?start = Some (c, fr)"
    "c = Returns () \<longrightarrow> frameMessage fr = message"
    using run_for_ends[of g lookup tokens 0 ?start] by auto
  obtain c' fr' where final: "run_whileAll g fr = Some (c', fr')"
    "c' = Returns () \<longrightarrow> frameMessage fr' = frameMessage fr"
    using corresponds_ends[OF run_whileAll_corresponds[of g fr]] by blast
  have u: "c = Returns () \<or> c = Throws" for c :: "unit completion"
    by (cases c) auto
  show ?thesis
    using loop final u[of c] u[of c']
    by (auto simp add: run_evaluateExpression_def)
qed

lemma run_evaluate_ends:
  "\<exists>this'. run_evaluate g lookup this formula = Some (Returns (), this') \<and>
     (this' = this\<lparr>errorMessage := emptyFormula g, result := Fin 0\<rparr> \<or>
      this' = this\<lparr>errorMessage := invalidFormula g, result := Fin 0\<rparr> \<or>
      (\<exists>r. this' = this\<lparr>errorMessage := '''', result := r\<rparr>))"
proof (cases "formula = []")
  case True
  then show ?thesis by (simp add: run_evaluate_def)
next
  case False
  obtain c m where inner: "run_evaluateExpression g lookup formula '''' = Some (c, m)"
    "c \<noteq> Throws \<longrightarrow> m = ''''"
    using run_evaluateExpression_ends by blast
  show ?thesis
  proof (cases c)
    case Throws
    with False inner show ?thesis by (simp add: run_evaluate_def)
  next
    case (Returns r)
    with False inner have "run_evaluate g lookup this formula
        = Some (Returns (), this\<lparr>errorMessage := [], result := r\<rparr>)"
      by (simp add: run_evaluate_def)
    then show ?thesis by blast
  qed
qed

lemma run_evaluate_catches:
  "formula \<noteq> [] \<Longrightarrow> run_evaluateExpression g lookup formula '''' = Some (Throws, m) \<Longrightarrow>
     run_evaluate g lookup this formula
       = Some (Returns (), this\<lparr>errorMessage := invalidFormula g, result := Fin 0\<rparr>)"
  by (simp add: run_evaluate_def)

lemma run_throwing_lookup:
  assumes "\<not> isNumber t" "isCellReference g t"
  shows "run_evaluateExpression g throwingLookup [t] message = Some (Throws, message)"
proof -
  have "run_iteration g throwingLookup t fr = Some (Throws, fr)" for fr
    using assms by (simp add: run_iteration_def run_getCellValue_def throwingLookup_def)
  then have "run_for g throwingLookup [t] 0 fr = Some (Throws, fr)" for fr
    by (subst run_for.simps) simp
  then show ?thesis
    by (simp add: run_evaluateExpression_def)
qed

text \<open>
  Claim C4. Whatever the tokens, the state of the evaluator and the behaviour of the
  lookup (a cell or an exception, for each label), the run of \<^verbatim>\<open>evaluate\<close> comes to an
  end and completes normally: no loop runs forever and no exception leaves the call.
  It leaves the evaluator in one of three states: the empty-formula message with result
  0, the invalid-formula message with result 0, or no message and some result. Every
  throw of \<^verbatim>\<open>evaluateExpression\<close>, whether it set a message or came from the lookup,
  ends in the second. When the lookup never throws, the state left is the one the
  function \<open>evaluate\<close> computes.
\<close>

theorem C4_normal_return:
  "(\<exists>this'. run_evaluate g lookup this formula = Some (Returns (), this') \<and>
      (this' = this\<lparr>errorMessage := emptyFormula g, result := Fin 0\<rparr> \<or>
       this' = this\<lparr>errorMessage := invalidFormula g, result := Fin 0\<rparr> \<or>
       (\<exists>r. this' = this\<lparr>errorMessage := '''', result := r\<rparr>))) \<and>
   (formula \<noteq> [] \<and> run_evaluateExpression g lookup formula '''' = Some (Throws, m) \<longrightarrow>
      run_evaluate g lookup this formula
        = Some (Returns (), this\<lparr>errorMessage := invalidFormula g, result := Fin 0\<rparr>)) \<and>
   run_evaluate g (lookupOf (sheetMemory this)) this formula
     = Some (Returns (), evaluate g this formula)"
  using run_evaluate_ends[of g lookup this formula] run_evaluate_eq[of g this formula]
  by (simp add: run_evaluate_catches)

text \<open>
  A lookup that throws for every label: inside \<^verbatim>\<open>evaluate\<close>, the formula \<^verbatim>\<open>A1\<close>
  throws with the field still empty, and the call completes normally with the
  invalid-formula message.
\<close>

theorem C4_normal_return_witness:
  "run_evaluateExpression specGlobals throwingLookup [''A1''] '''' = Some (Throws, '''') \<and>
   run_evaluate specGlobals throwingLookup exampleEvaluator [''A1'']
     = Some (Returns (), exampleEvaluator\<lparr>errorMessage := ''InvalidFormula'', result := Fin 0\<rparr>)"
proof -
  have thrown: "run_evaluateExpression specGlobals throwingLookup [''A1''] '''' = Some (Throws, '''')"
    by (rule run_throwing_lookup)
      (simp_all add: isNumber_examples isCellReference_def specGlobals_labels)
  with C4_normal_return[of specGlobals throwingLookup exampleEvaluator "[''A1'']" "''''"]
  show ?thesis by (simp add: specGlobals_fields)
qed

subsection \<open>The scan of an infix formula\<close>

lemma reduceByPrecedence_below:
  "below (getOperatorPrecedence t) os \<Longrightarrow> reduceByPrecedence g t os vs = Inr (vs, os)"
  by (cases os) (simp_all add: below_def)

lemma reduces_like_refl: "reduces_like g p s s"
  by (simp add: reduces_like_def)

lemma reduces_like_weaken: "reduces_like g p s' s \<Longrightarrow> q \<le> p \<Longrightarrow> reduces_like g q s' s"
  by (simp add: reduces_like_def)

lemma reduces_like_apply:
  assumes "reduces_like g p s' (b # a # vs, opr # os)"
    and "applyOperator g opr (b # a # vs) = Inr (c # vs)"
    and "isOperator opr" and "q \<le> getOperatorPrecedence opr" and "q \<le> p"
  shows "reduces_like g q s' (c # vs, os)"
  using assms by (auto simp add: reduces_like_def isOperator_def)

lemma below_weaken: "below p os \<Longrightarrow> p \<le> q \<Longrightarrow> below q os"
  by (cases os) (simp_all add: below_def)

lemma below_push: "getOperatorPrecedence opr < p \<Longrightarrow> below p (opr # os)"
  by (simp add: below_def)

lemma lift2_Some: "lift2 f x y = Some v \<Longrightarrow> \<exists>a b. x = Some a \<and> y = Some b \<and> v = f a b"
  by (auto simp add: lift2_def split: option.splits)

lemma quotient_Some:
  "quotient x y = Some v \<Longrightarrow> \<exists>a b. x = Some a \<and> y = Some b \<and> \<not> isZero b \<and> v = js_div a b"
  by (auto simp add: quotient_def split: option.splits if_splits)

lemma applyOperator_simps:
  "applyOperator g ''+'' (b # a # vs) = Inr (js_add a b # vs)"
  "applyOperator g ''-'' (b # a # vs) = Inr (js_sub a b # vs)"
  "applyOperator g ''*'' (b # a # vs) = Inr (js_mul a b # vs)"
  "\<not> isZero b \<Longrightarrow> applyOperator g ''/'' (b # a # vs) = Inr (js_div a b # vs)"
  by (simp_all add: applyOperator_def push_def)

text \<open>
  The step shared by the four binary operators: the left operand has been scanned, the
  operator arrives and reduces what is pending down to the left operand's value, is
  pushed, and the right operand is scanned above it.
\<close>

lemma scan_binary:
  assumes sym: "symbols_not_labels g"
    and opr: "isOperator opr"
    and left: "scan g mem xs vs os = Inr s1" "reduces_like g p s1 (a # vs, os)"
    and p: "getOperatorPrecedence opr \<le> p" "q \<le> getOperatorPrecedence opr"
    and low: "below (getOperatorPrecedence opr) os"
    and right: "scan g mem ys (a # vs) (opr # os) = Inr s2" "reduces_like g r s2 (b # a # vs, opr # os)" "q \<le> r"
    and app: "applyOperator g opr (b # a # vs) = Inr (c # vs)"
  shows "scan g mem (xs @ opr # ys) vs os = Inr s2 \<and> reduces_like g q s2 (c # vs, os)"
proof -
  obtain vs1 os1 where s1: "s1 = (vs1, os1)" by (cases s1)
  have "reduceByPrecedence g opr os1 vs1 = reduceByPrecedence g opr os (a # vs)"
    using left(2) opr p(1) by (simp add: reduces_like_def s1)
  also have "\<dots> = Inr (a # vs, os)"
    using low by (rule reduceByPrecedence_below)
  finally have "scan g mem (opr # ys) vs1 os1 = scan g mem ys (a # vs) (opr # os)"
    using sym opr by (simp add: scan_operator del: scan.simps)
  then have "scan g mem (xs @ opr # ys) vs os = Inr s2"
    using left(1) right(1) by (simp add: scan_append s1 del: scan.simps)
  moreover have "reduces_like g q s2 (c # vs, os)"
    using right(2) app opr p(2) right(3) by (rule reduces_like_apply)
  ultimately show ?thesis by simp
qed

text \<open>
  The scan of a formula, a product or a factor from any pair of stacks: a factor leaves
  its value on top of the values; a product and a formula leave stacks that reduce
  like the stacks with their value on top.
\<close>

lemma scan_infix:
  assumes sym: "symbols_not_labels g"
  shows "literals_expr e \<Longrightarrow> value_expr e = Some v \<Longrightarrow> below 1 os \<Longrightarrow>
           \<exists>s'. scan g mem (tokens_expr e) vs os = Inr s' \<and> reduces_like g 1 s' (v # vs, os)"
    and "literals_term t \<Longrightarrow> value_term t = Some v \<Longrightarrow> below 2 os \<Longrightarrow>
           \<exists>s'. scan g mem (tokens_term t) vs os = Inr s' \<and> reduces_like g 2 s' (v # vs, os)"
    and "literals_factor f \<Longrightarrow> value_factor f = Some v \<Longrightarrow>
           scan g mem (tokens_factor f) vs os = Inr (v # vs, os)"
proof (induction e and t and f arbitrary: v vs os and v vs os and v vs os)
  case (ETerm t)
  then have "below 2 os" by (auto intro: below_weaken)
  moreover have "literals_term t" "value_term t = Some v" using ETerm.prems by simp_all
  ultimately obtain s' where "scan g mem (tokens_term t) vs os = Inr s'"
    "reduces_like g 2 s' (v # vs, os)" using ETerm.IH[of v os vs] by blast
  moreover from this(2) have "reduces_like g 1 s' (v # vs, os)"
    by (rule reduces_like_weaken) simp
  ultimately show ?case by auto
next
  case (EAdd e t)
  from EAdd.prems(2) obtain a b where ab: "value_expr e = Some a" "value_term t = Some b" "v = js_add a b"
    by (auto dest: lift2_Some)
  have lit: "literals_expr e" "literals_term t" using EAdd.prems(1) by simp_all
  from EAdd.IH(1)[OF lit(1) ab(1) EAdd.prems(3), of vs]
  obtain s1 where s1: "scan g mem (tokens_expr e) vs os = Inr s1" "reduces_like g 1 s1 (a # vs, os)"
    by blast
  have "below 2 (''+'' # os)" by (simp add: below_def getOperatorPrecedence_def)
  from EAdd.IH(2)[OF lit(2) ab(2) this, of "a # vs"]
  obtain s2 where s2: "scan g mem (tokens_term t) (a # vs) (''+'' # os) = Inr s2"
    "reduces_like g 2 s2 (b # a # vs, ''+'' # os)" by blast
  have "scan g mem (tokens_expr e @ ''+'' # tokens_term t) vs os = Inr s2 \<and> reduces_like g 1 s2 (v # vs, os)"
    using sym _ s1 _ _ _ s2
  proof (rule scan_binary)
    show "isOperator ''+''" by (simp add: isOperator_def)
    show "getOperatorPrecedence ''+'' \<le> 1" "1 \<le> getOperatorPrecedence ''+''"
      by (simp_all add: getOperatorPrecedence_def)
    show "below (getOperatorPrecedence ''+'') os" using EAdd.prems(3) by (simp add: getOperatorPrecedence_def)
    show "(1::nat) \<le> 2" by simp
    show "applyOperator g ''+'' (b # a # vs) = Inr (v # vs)" by (simp add: applyOperator_simps ab)
  qed
  then show ?case by simp
next
  case (ESub e t)
  from ESub.prems(2) obtain a b where ab: "value_expr e = Some a" "value_term t = Some b" "v = js_sub a b"
    by (auto dest: lift2_Some)
  have lit: "literals_expr e" "literals_term t" using ESub.prems(1) by simp_all
  from ESub.IH(1)[OF lit(1) ab(1) ESub.prems(3), of vs]
  obtain s1 where s1: "scan g mem (tokens_expr e) vs os = Inr s1" "reduces_like g 1 s1 (a # vs, os)"
    by blast
  have "below 2 (''-'' # os)" by (simp add: below_def getOperatorPrecedence_def)
  from ESub.IH(2)[OF lit(2) ab(2) this, of "a # vs"]
  obtain s2 where s2: "scan g mem (tokens_term t) (a # vs) (''-'' # os) = Inr s2"
    "reduces_like g 2 s2 (b # a # vs, ''-'' # os)" by blast
  have "scan g mem (tokens_expr e @ ''-'' # tokens_term t) vs os = Inr s2 \<and> reduces_like g 1 s2 (v # vs, os)"
    using sym _ s1 _ _ _ s2
  proof (rule scan_binary)
    show "isOperator ''-''" by (simp add: isOperator_def)
    show "getOperatorPrecedence ''-'' \<le> 1" "1 \<le> getOperatorPrecedence ''-''"
      by (simp_all add: getOperatorPrecedence_def)
    show "below (getOperatorPrecedence ''-'') os" using ESub.prems(3) by (simp add: getOperatorPrecedence_def)
    show "(1::nat) \<le> 2" by simp
    show "applyOperator g ''-'' (b # a # vs) = Inr (v # vs)" by (simp add: applyOperator_simps ab)
  qed
  then show ?case by simp
next
  case (TFactor f)
  then have "scan g mem (tokens_factor f) vs os = Inr (v # vs, os)" by simp
  then show ?case by (simp add: reduces_like_refl)
next
  case (TMul t f)
  from TMul.prems(2) obtain a b where ab: "value_term t = Some a" "value_factor f = Some b" "v = js_mul a b"
    by (auto dest: lift2_Some)
  have lit: "literals_term t" "literals_factor f" using TMul.prems(1) by simp_all
  from TMul.IH(1)[OF lit(1) ab(1) TMul.prems(3), of vs]
  obtain s1 where s1: "scan g mem (tokens_term t) vs os = Inr s1" "reduces_like g 2 s1 (a # vs, os)"
    by blast
  from TMul.IH(2)[OF lit(2) ab(2)]
  have s2: "scan g mem (tokens_factor f) (a # vs) (''*'' # os) = Inr (b # a # vs, ''*'' # os)"
    "reduces_like g 2 (b # a # vs, ''*'' # os) (b # a # vs, ''*'' # os)"
    by (auto simp add: reduces_like_refl)
  have "scan g mem (tokens_term t @ ''*'' # tokens_factor f) vs os = Inr (b # a # vs, ''*'' # os)
      \<and> reduces_like g 2 (b # a # vs, ''*'' # os) (v # vs, os)"
    using sym _ s1 _ _ _ s2
  proof (rule scan_binary)
    show "isOperator ''*''" by (simp add: isOperator_def)
    show "getOperatorPrecedence ''*'' \<le> 2" "2 \<le> getOperatorPrecedence ''*''"
      by (simp_all add: getOperatorPrecedence_def)
    show "below (getOperatorPrecedence ''*'') os" using TMul.prems(3) by (simp add: getOperatorPrecedence_def)
    show "(2::nat) \<le> 2" by simp
    show "applyOperator g ''*'' (b # a # vs) = Inr (v # vs)" by (simp add: applyOperator_simps ab)
  qed
  then show ?case by simp
next
  case (TDiv t f)
  from TDiv.prems(2) obtain a b where ab: "value_term t = Some a" "value_factor f = Some b"
    "\<not> isZero b" "v = js_div a b"
    by (auto dest: quotient_Some)
  have lit: "literals_term t" "literals_factor f" using TDiv.prems(1) by simp_all
  from TDiv.IH(1)[OF lit(1) ab(1) TDiv.prems(3), of vs]
  obtain s1 where s1: "scan g mem (tokens_term t) vs os = Inr s1" "reduces_like g 2 s1 (a # vs, os)"
    by blast
  from TDiv.IH(2)[OF lit(2) ab(2)]
  have s2: "scan g mem (tokens_factor f) (a # vs) (''/'' # os) = Inr (b # a # vs, ''/'' # os)"
    "reduces_like g 2 (b # a # vs, ''/'' # os) (b # a # vs, ''/'' # os)"
    by (auto simp add: reduces_like_refl)
  have "scan g mem (tokens_term t @ ''/'' # tokens_factor f) vs os = Inr (b # a # vs, ''/'' # os)
      \<and> reduces_like g 2 (b # a # vs, ''/'' # os) (v # vs, os)"
    using sym _ s1 _ _ _ s2
  proof (rule scan_binary)
    show "isOperator ''/''" by (simp add: isOperator_def)
    show "getOperatorPrecedence ''/'' \<le> 2" "2 \<le> getOperatorPrecedence ''/''"
      by (simp_all add: getOperatorPrecedence_def)
    show "below (getOperatorPrecedence ''/'') os" using TDiv.prems(3) by (simp add: getOperatorPrecedence_def)
    show "(2::nat) \<le> 2" by simp
    show "applyOperator g ''/'' (b # a # vs) = Inr (v # vs)" by (simp add: applyOperator_simps ab)
  qed
  then show ?case by simp
next
  case (FNumber n)
  then show ?case by (simp add: scan_number del: scan.simps(2))
next
  case (FParen e)
  have "below 1 (''('' # os)" by (simp add: below_def getOperatorPrecedence_def)
  have "literals_expr e" "value_expr e = Some v" using FParen.prems by simp_all
  from FParen.IH[OF this \<open>below 1 (''('' # os)\<close>, of vs]
  obtain s1 where "scan g mem (tokens_expr e) vs (''('' # os) = Inr s1"
    "reduces_like g 1 s1 (v # vs, ''('' # os)" by blast
  then obtain vs1 os1 where s1: "scan g mem (tokens_expr e) vs (''('' # os) = Inr (vs1, os1)"
    "reduces_like g 1 (vs1, os1) (v # vs, ''('' # os)" by (cases s1) auto
  from s1(2) have "reduceToParen g os1 vs1 = Inr (v # vs, ''('' # os)"
    by (simp add: reduces_like_def)
  then have "scan g mem ['')''] vs1 os1 = Inr (v # vs, os)"
    using sym by (simp add: scan_close del: scan.simps(2))
  then show ?case using sym s1(1) by (simp add: scan_open scan_append del: scan.simps(2))
qed


lemma tokens_nonempty:
  "tokens_expr e \<noteq> []" "tokens_term t \<noteq> []" "tokens_factor f \<noteq> []"
  by (induction e and t and f) simp_all

lemma evaluateExpression_infix:
  assumes "symbols_not_labels g" "literals_expr e" "value_expr e = Some v"
  shows "evaluateExpression g mem (tokens_expr e) = Inr (orZero (Some v))"
proof -
  have "below 1 []" by (simp add: below_def)
  with scan_infix(1)[OF assms, of "[]" mem "[]"]
  obtain s' where s': "scan g mem (tokens_expr e) [] [] = Inr s'" "reduces_like g 1 s' ([v], [])"
    by blast
  from s'(2) have "reduceAll g (snd s') (fst s') = Inr [v]"
    by (simp add: reduces_like_def)
  with s'(1) show ?thesis
    by (cases s') (simp add: evaluateExpression_def)
qed

lemma orZero_strictEquals: "v \<noteq> NaN \<Longrightarrow> strictEquals (orZero (Some v)) v"
  by (cases v) (simp_all add: strictEquals_def)

lemma example_tokens:
  "tokens_expr sumThenProduct = [''2'', ''+'', ''3'', ''*'', ''4'']"
  "tokens_expr parenthesisedSum = [''('', ''2'', ''+'', ''3'', '')'', ''*'', ''4'']"
  "tokens_expr twoDifferences = [''8'', ''-'', ''3'', ''-'', ''2'']"
  "tokens_expr fiveByZero = [''5'', ''/'', ''0'']"
  "tokens_expr infinityMinusInfinity = [''Infinity'', ''-'', ''Infinity'']"
  by (simp_all add: sumThenProduct_def parenthesisedSum_def twoDifferences_def fiveByZero_def
      infinityMinusInfinity_def)

lemma example_literals:
  "literals_expr sumThenProduct" "literals_expr parenthesisedSum" "literals_expr twoDifferences"
  "literals_expr fiveByZero" "literals_expr infinityMinusInfinity"
  by (simp_all add: sumThenProduct_def parenthesisedSum_def twoDifferences_def fiveByZero_def
      infinityMinusInfinity_def isNumber_examples)

lemma example_values:
  "value_expr sumThenProduct = Some (Fin 14)"
  "value_expr parenthesisedSum = Some (Fin 20)"
  "value_expr twoDifferences = Some (Fin 3)"
  "value_expr fiveByZero = None"
  "value_expr infinityMinusInfinity = Some NaN"
  by (simp_all add: sumThenProduct_def parenthesisedSum_def twoDifferences_def fiveByZero_def
      infinityMinusInfinity_def Number_examples lift2_def quotient_def js_sub_def js_add_def
      js_mul_def roundToDouble_examples)

text \<open>
  Claim C1, as amended. Let a token sequence be the reading of an arithmetic-only
  formula (number literals, the four operators, balanced parentheses) whose standard
  infix evaluation divides by zero nowhere and has a value other than NaN. Then
  \<^verbatim>\<open>evaluate\<close> records no error and the result equals that value (as \<^verbatim>\<open>===\<close> compares
  numbers: a value of negative zero is reported as 0), for every label validator that
  accepts none of the six symbols. The standard evaluation, in the arithmetic of the
  language and with every literal converted by \<^verbatim>\<open>Number\<close>, is the one in which
  \<^verbatim>\<open>*\<close> and \<^verbatim>\<open>/\<close> bind tighter than \<^verbatim>\<open>+\<close> and \<^verbatim>\<open>-\<close>, equal precedence associates to
  the left and parentheses override precedence; so \<^verbatim>\<open>2 + 3 * 4\<close> gives 14,
  \<^verbatim>\<open>( 2 + 3 ) * 4\<close> gives 20 and \<^verbatim>\<open>8 - 3 - 2\<close> gives 3.
\<close>

theorem C1_infix_evaluation:
  assumes "symbols_not_labels g"
  shows "(literals_expr e \<and> value_expr e = Some v \<and> v \<noteq> NaN \<longrightarrow>
            errorMessage (evaluate g this (tokens_expr e)) = '''' \<and>
            strictEquals (result (evaluate g this (tokens_expr e))) v) \<and>
         evaluate g this [''2'', ''+'', ''3'', ''*'', ''4'']
           = this\<lparr>errorMessage := '''', result := Fin 14\<rparr> \<and>
         evaluate g this [''('', ''2'', ''+'', ''3'', '')'', ''*'', ''4'']
           = this\<lparr>errorMessage := '''', result := Fin 20\<rparr> \<and>
         evaluate g this [''8'', ''-'', ''3'', ''-'', ''2'']
           = this\<lparr>errorMessage := '''', result := Fin 3\<rparr>"
proof -
  have general:
    "evaluate g this (tokens_expr x) = this\<lparr>errorMessage := '''', result := orZero (Some w)\<rparr>"
    if "literals_expr x" "value_expr x = Some w" for x w
  proof -
    have "evaluateExpression g (sheetMemory this) (tokens_expr x) = Inr (orZero (Some w))"
      using assms that by (rule evaluateExpression_infix)
    with tokens_nonempty(1)[of x] show ?thesis
      by (rule evaluate_returns)
  qed
  have "evaluate g this (tokens_expr sumThenProduct) = this\<lparr>errorMessage := '''', result := Fin 14\<rparr>"
    using general[OF example_literals(1) example_values(1)] by simp
  moreover
  have "evaluate g this (tokens_expr parenthesisedSum) = this\<lparr>errorMessage := '''', result := Fin 20\<rparr>"
    using general[OF example_literals(2) example_values(2)] by simp
  moreover
  have "evaluate g this (tokens_expr twoDifferences) = this\<lparr>errorMessage := '''', result := Fin 3\<rparr>"
    using general[OF example_literals(3) example_values(3)] by simp
  moreover
  have "errorMessage (evaluate g this (tokens_expr e)) = [] \<and>
      strictEquals (result (evaluate g this (tokens_expr e))) v"
    if "literals_expr e" "value_expr e = Some v" "v \<noteq> NaN"
    using general[OF that(1,2)] orZero_strictEquals[OF that(3)] by simp
  ultimately show ?thesis
    by (simp add: example_tokens)
qed

text \<open>The three formulas of the claim, on the example evaluator.\<close>

theorem C1_infix_evaluation_witness:
  "symbols_not_labels specGlobals \<and> literals_expr twoDifferences \<and>
   value_expr twoDifferences = Some (Fin 3) \<and>
   errorMessage (evaluate specGlobals exampleEvaluator [''8'', ''-'', ''3'', ''-'', ''2'']) = '''' \<and>
   result (evaluate specGlobals exampleEvaluator [''8'', ''-'', ''3'', ''-'', ''2'']) = Fin 3 \<and>
   result (evaluate specGlobals exampleEvaluator [''2'', ''+'', ''3'', ''*'', ''4'']) = Fin 14 \<and>
   result (evaluate specGlobals exampleEvaluator [''('', ''2'', ''+'', ''3'', '')'', ''*'', ''4''])
     = Fin 20"
  using C1_infix_evaluation[OF specGlobals_symbols, of twoDifferences "Fin 3" exampleEvaluator]
  by (simp add: specGlobals_symbols example_literals example_values example_tokens)

text \<open>
  The claim as stated fails twice. \<^verbatim>\<open>5 / 0\<close> is a well-formed arithmetic-only
  sequence and \<^verbatim>\<open>evaluate\<close> records an error for it. \<^verbatim>\<open>Infinity - Infinity\<close> is one
  too (the classifier accepts \<^verbatim>\<open>Infinity\<close>), its standard value is NaN, and the
  result reported is 0.
\<close>

theorem C1_counterexample:
  "tokens_expr fiveByZero = [''5'', ''/'', ''0''] \<and> literals_expr fiveByZero \<and>
   errorMessage (evaluate specGlobals exampleEvaluator [''5'', ''/'', ''0'']) = ''InvalidFormula'' \<and>
   tokens_expr infinityMinusInfinity = [''Infinity'', ''-'', ''Infinity''] \<and>
   literals_expr infinityMinusInfinity \<and>
   value_expr infinityMinusInfinity = Some NaN \<and>
   errorMessage (evaluate specGlobals exampleEvaluator [''Infinity'', ''-'', ''Infinity'']) = '''' \<and>
   result (evaluate specGlobals exampleEvaluator [''Infinity'', ''-'', ''Infinity'']) = Fin 0"
proof -
  have "evaluateExpression specGlobals exampleSheet [''5'', ''/'', ''0''] = Inl ''DivideByZero''"
    using specGlobals_symbols
    by (simp add: divide_by_zero_thrown symbols_not_labels_def specGlobals_fields)
  then have "errorMessage (evaluate specGlobals exampleEvaluator [''5'', ''/'', ''0''])
      = ''InvalidFormula''"
    by (simp add: evaluate_throws exampleEvaluator_def specGlobals_fields)
  moreover
  have "evaluateExpression specGlobals exampleSheet [''Infinity'', ''-'', ''Infinity'']
      = Inr (Fin 0)"
    using evaluateExpression_infix[OF specGlobals_symbols example_literals(5) example_values(5),
        of exampleSheet]
    by (simp add: example_tokens)
  then have "evaluate specGlobals exampleEvaluator [''Infinity'', ''-'', ''Infinity'']
      = exampleEvaluator\<lparr>errorMessage := '''', result := Fin 0\<rparr>"
    by (simp add: evaluate_returns exampleEvaluator_def)
  ultimately show ?thesis
    by (simp add: example_tokens example_literals example_values)
qed


end
